theory Spec2Isabelle
  imports Main "HOL-Library.Sublist"
begin

section \<open>Strings and paths\<close>

text \<open>
  The dataset registry of \<^verbatim>\<open>tools/datasets/corpora.py\<close> builds shell commands and
  paths by string formatting. A Python string is kept as the bytes of its UTF-8
  encoding: concatenation, comparison, prefix and suffix tests and the search for the
  separator \<^verbatim>\<open>/\<close> agree on both. The helpers below are the fragments of Python's
  \<^verbatim>\<open>str\<close> and \<^verbatim>\<open>posixpath\<close> that the module uses.
\<close>

definition startswith :: "string \<Rightarrow> string \<Rightarrow> bool" where
  "startswith s p = (take (length p) s = p)"

definition endswith :: "string \<Rightarrow> string \<Rightarrow> bool" where
  "endswith s p = (length p \<le> length s \<and> drop (length s - length p) s = p)"

text \<open>\<^verbatim>\<open>s.split('/')[0]\<close>: the part of \<open>s\<close> before the first separator.\<close>

definition split0 :: "string \<Rightarrow> string" where
  "split0 s = takeWhile (\<lambda>c. c \<noteq> CHR ''/'') s"

text \<open>The lower case of an ASCII character: the letters A to Z change, nothing else does.\<close>

definition lower_char :: "char \<Rightarrow> char" where
  "lower_char c =
     (case map_of (zip ''ABCDEFGHIJKLMNOPQRSTUVWXYZ'' ''abcdefghijklmnopqrstuvwxyz'') c of
        None \<Rightarrow> c
      | Some l \<Rightarrow> l)"

definition is_ascii :: "char \<Rightarrow> bool" where
  "is_ascii c = (\<not> digit7 c)"

text \<open>
  \<^verbatim>\<open>s.lower()\<close> for a string whose code points are ASCII or U+212A KELVIN SIGN
  (in UTF-8 the bytes E2 84 AA), which Python lowers to the letter k. On such a string
  Python lowers code point by code point. The result is \<open>None\<close> for every other
  string.
\<close>

function simple_lower :: "string \<Rightarrow> string option" where
  "simple_lower [] = Some []"
| "simple_lower (c # cs) =
     (if is_ascii c then map_option ((#) (lower_char c)) (simple_lower cs)
      else if c = CHR 0xE2 \<and> take 2 cs = [CHR 0x84, CHR 0xAA]
           then map_option ((#) CHR ''k'') (simple_lower (drop 2 cs))
      else None)"
  by pat_completeness auto
termination
  by (relation "measure length") auto

text \<open>
  \<^verbatim>\<open>posixpath.join(a, *p)\<close>: a component that starts with the separator replaces
  what came before it; otherwise it is appended, with a separator unless the path so far
  is empty or already ends with one.
\<close>

fun join :: "string \<Rightarrow> string list \<Rightarrow> string" where
  "join a [] = a"
| "join a (b # p) =
     join (if startswith b ''/'' then b
           else if a = [] \<or> endswith a ''/'' then a @ b
           else a @ ''/'' @ b) p"

text \<open>\<^verbatim>\<open>posixpath.basename(p)\<close>: what follows the last separator.\<close>

definition basename :: "string \<Rightarrow> string" where
  "basename p = rev (takeWhile (\<lambda>c. c \<noteq> CHR ''/'') (rev p))"

text \<open>\<^verbatim>\<open>sep.join(xs)\<close>.\<close>

fun str_join :: "string \<Rightarrow> string list \<Rightarrow> string" where
  "str_join sep [] = []"
| "str_join sep [x] = x"
| "str_join sep (x # y # xs) = x @ sep @ str_join sep (y # xs)"

text \<open>Decimal rendering of integers, as \<^verbatim>\<open>str(n)\<close> and \<^verbatim>\<open>f"{n}"\<close> give it.\<close>

definition digit :: "nat \<Rightarrow> char" where
  "digit n = ''0123456789'' ! (n mod 10)"

fun str_nat :: "nat \<Rightarrow> string" where
  "str_nat n = (if n < 10 then [digit n] else str_nat (n div 10) @ [digit n])"

declare str_nat.simps [simp del]

definition str_int :: "int \<Rightarrow> string" where
  "str_int i = (if i < 0 then ''-'' @ str_nat (nat (- i)) else str_nat (nat i))"

text \<open>\<^verbatim>\<open>f"{n:0w}"\<close> for a non-negative \<open>n\<close>: padded with zeros on the left to width \<open>w\<close>.\<close>

definition zero_pad :: "nat \<Rightarrow> nat \<Rightarrow> string" where
  "zero_pad w n = replicate (w - length (str_nat n)) CHR ''0'' @ str_nat n"

text \<open>\<^verbatim>\<open>f"{x}"\<close> for a value that is a string or \<^verbatim>\<open>None\<close>.\<close>

definition fmt_opt :: "string option \<Rightarrow> string" where
  "fmt_opt x = (case x of None \<Rightarrow> ''None'' | Some s \<Rightarrow> s)"

text \<open>\<^verbatim>\<open>repr\<close> of a list of strings that hold no quote and no escape.\<close>

definition repr_list :: "string list \<Rightarrow> string" where
  "repr_list xs = ''['' @ str_join '', '' (map (\<lambda>k. [CHR 0x27] @ k @ [CHR 0x27]) xs) @ '']''"

section \<open>The operating system as a collaborator\<close>

text \<open>
  The module acts on the world only through \<^verbatim>\<open>os.makedirs\<close>, \<^verbatim>\<open>os.system\<close> and
  \<^verbatim>\<open>zipfile.ZipFile\<close>, and observes it through \<^verbatim>\<open>os.path.isdir\<close>,
  \<^verbatim>\<open>os.path.isfile\<close>, \<^verbatim>\<open>os.listdir\<close>, \<^verbatim>\<open>os.environ.get\<close> and
  \<^verbatim>\<open>cpu_count\<close>. Every action is recorded, in order, as an event. What an
  observation returns is decided by the collaborator from the events so far, so that a
  fetch may create a file that a later test sees, and the same command may succeed once
  and fail later. Opening the archive can fail: the module writes it in a directory that
  it never creates, and \<^verbatim>\<open>zipfile_open\<close> gives the exception raised, if any. The
  other filesystem calls act on paths the module has just created or listed and are taken
  to succeed. The interpreter's Unicode tables are a collaborator too:
  \<^verbatim>\<open>str_lower\<close> is \<^verbatim>\<open>str.lower\<close> on the strings that hold a code point
  other than ASCII and U+212A.
\<close>

datatype event =
    MakeDirs string
  | System string
  | ZipOpen string
  | ZipWrite string string string
  | ZipClose string

datatype error =
    AssertionError string
  | Exception string
  | NotImplementedError string
  | TypeError string
  | FileNotFoundError string

record os =
  isdir :: "event list \<Rightarrow> string \<Rightarrow> bool"
  isfile :: "event list \<Rightarrow> string \<Rightarrow> bool"
  listdir :: "event list \<Rightarrow> string \<Rightarrow> string list"
  system :: "event list \<Rightarrow> string \<Rightarrow> int"
  zipfile_open :: "event list \<Rightarrow> string \<Rightarrow> error option"
  environ :: "string \<Rightarrow> string option"
  cpu_count :: int
  str_lower :: "string \<Rightarrow> string"

text \<open>
  \<^verbatim>\<open>s.lower()\<close>: exact on the strings of ASCII and Kelvin signs, the interpreter's
  table on the others.
\<close>

definition lower :: "os \<Rightarrow> string \<Rightarrow> string" where
  "lower env s = (case simple_lower s of Some l \<Rightarrow> l | None \<Rightarrow> str_lower env s)"

type_synonym 'a result = "(error + 'a) \<times> event list"

text \<open>\<^verbatim>\<open>os.environ.get(k, default)\<close>.\<close>

definition environ_get :: "os \<Rightarrow> string \<Rightarrow> string \<Rightarrow> string" where
  "environ_get env k dflt = (case environ env k of None \<Rightarrow> dflt | Some v \<Rightarrow> v)"

section \<open>The dataset descriptor\<close>

text \<open>
  A subclass of \<^verbatim>\<open>DataDownloader\<close> declares \<^verbatim>\<open>name\<close>, \<^verbatim>\<open>urls\<close> and, optionally,
  \<^verbatim>\<open>num_docs\<close> (the base class's property returns \<^verbatim>\<open>None\<close>). \<^verbatim>\<open>CustomDataset\<close>
  declares \<^verbatim>\<open>urls = None\<close>.
\<close>

record downloader_class =
  cls_name :: string
  cls_urls :: "string list option"
  cls_num_docs :: "int option"

text \<open>An instance: the class attributes and what \<^verbatim>\<open>__init__\<close> stores.\<close>

record data_downloader =
  name :: string
  urls :: "string list option"
  num_docs :: "int option"
  tokenizer_type :: string
  merge_file :: string
  vocab_file :: "string option"
  data_dir :: string
  force_redownload :: bool
  num_workers :: int
  dataset_name :: "string option"

text \<open>
  \<^verbatim>\<open>DataDownloader.__init__\<close>. An argument left out is \<^verbatim>\<open>None\<close>. The defaults
  are resolved in the order of the source; the vocabulary file of a tokenizer type other
  than the three known ones is asserted to be present.
\<close>

definition init ::
  "os \<Rightarrow> downloader_class \<Rightarrow> string option \<Rightarrow> string option \<Rightarrow> string option \<Rightarrow> string option \<Rightarrow>
   bool option \<Rightarrow> int option \<Rightarrow> string option \<Rightarrow> error + data_downloader" where
  "init env c tokenizer_type0 merge_file0 vocab_file0 data_dir0 force_redownload0 num_workers0
        dataset_name0 =
     (let tokenizer_type1 =
            (case tokenizer_type0 of None \<Rightarrow> ''GPT2BPETokenizer'' | Some t \<Rightarrow> t);
          data_dir1 =
            (case data_dir0 of None \<Rightarrow> environ_get env ''DATA_DIR'' ''./data'' | Some d \<Rightarrow> d);
          merge_file1 =
            (case merge_file0 of None \<Rightarrow> data_dir1 @ ''/gpt2-merges.txt'' | Some m \<Rightarrow> m);
          force_redownload1 =
            (case force_redownload0 of None \<Rightarrow> False | Some f \<Rightarrow> f);
          vocab_file1 =
            (case vocab_file0 of
               Some v \<Rightarrow> Inr (Some v)
             | None \<Rightarrow>
                 if tokenizer_type1 = ''GPT2BPETokenizer'' then Inr (Some (data_dir1 @ ''/gpt2-vocab.json''))
                 else if tokenizer_type1 = ''HFGPT2Tokenizer'' then Inr (Some ''gpt2'')
                 else if tokenizer_type1 = ''CharLevelTokenizer'' then Inr None
                 else Inl (AssertionError ''No vocab file provided''));
          num_workers1 =
            (case num_workers0 of None \<Rightarrow> cpu_count env | Some n \<Rightarrow> n)
      in case vocab_file1 of
           Inl e \<Rightarrow> Inl e
         | Inr v \<Rightarrow>
             Inr \<lparr> name = cls_name c, urls = cls_urls c, num_docs = cls_num_docs c,
                   tokenizer_type = tokenizer_type1, merge_file = merge_file1, vocab_file = v,
                   data_dir = data_dir1, force_redownload = force_redownload1,
                   num_workers = num_workers1, dataset_name = dataset_name0 \<rparr>)"

text \<open>The property \<^verbatim>\<open>base_dir\<close> returns the data directory.\<close>

definition base_dir :: "data_downloader \<Rightarrow> string" where
  "base_dir d = data_dir d"

text \<open>The property \<^verbatim>\<open>ftfy\<close> returns \<^verbatim>\<open>False\<close>; no subclass overrides it.\<close>

definition ftfy :: "data_downloader \<Rightarrow> bool" where
  "ftfy d = False"

text \<open>\<^verbatim>\<open>exists\<close>: whether \<^verbatim>\<open>f"{base_dir}/{name}"\<close> is a directory.\<close>

definition exists :: "os \<Rightarrow> data_downloader \<Rightarrow> event list \<Rightarrow> bool" where
  "exists env d tr = isdir env tr (base_dir d @ ''/'' @ name d)"

section \<open>Acquisition\<close>

definition wget_cmd :: "data_downloader \<Rightarrow> string \<Rightarrow> string" where
  "wget_cmd d url =
     ''wget '' @ url @ '' -O '' @ join (base_dir d) [name d, basename url]"

definition download_error :: "string \<Rightarrow> error" where
  "download_error url =
     Exception (''Download error: '' @ ''Cannot download file at URL '' @ url @ '': server may be down'')"

text \<open>
  The loop of \<^verbatim>\<open>download\<close>: one \<^verbatim>\<open>wget\<close> per URL; the first exit status other
  than zero raises, and the handler around it raises again with the prefixed message.
\<close>

fun download_loop :: "os \<Rightarrow> data_downloader \<Rightarrow> string list \<Rightarrow> event list \<Rightarrow> unit result" where
  "download_loop env d [] tr = (Inr (), tr)"
| "download_loop env d (url # us) tr =
     (let os_cmd = wget_cmd d url;
          status = system env tr os_cmd;
          tr' = tr @ [System os_cmd]
      in if status \<noteq> 0 then (Inl (download_error url), tr')
         else download_loop env d us tr')"

definition not_iterable :: error where
  "not_iterable = TypeError ([CHR 0x27] @ ''NoneType'' @ [CHR 0x27] @ '' object is not iterable'')"

definition download :: "os \<Rightarrow> data_downloader \<Rightarrow> event list \<Rightarrow> unit result" where
  "download env d tr =
     (let tr1 = tr @ [MakeDirs (join (base_dir d) [name d])]
      in case urls d of
           None \<Rightarrow> (Inl not_iterable, tr1)
         | Some us \<Rightarrow> download_loop env d us tr1)"

section \<open>Transformation\<close>

text \<open>
  The input of the transform step: the explicit path when one is given, otherwise the
  comma-joined destinations of the declared URLs (the conditional expression reads
  \<^verbatim>\<open>urls\<close> only in the second case).
\<close>

definition jsonl_input :: "data_downloader \<Rightarrow> string option \<Rightarrow> error + string" where
  "jsonl_input d jsonl_filepath =
     (let parent_folder = join (base_dir d) [name d]
      in case jsonl_filepath of
           Some p \<Rightarrow> Inr p
         | None \<Rightarrow>
             (case urls d of
                None \<Rightarrow> Inl not_iterable
              | Some us \<Rightarrow>
                  Inr (str_join '','' (map (\<lambda>url. join parent_folder [basename url]) us))))"

text \<open>
  The command line of \<^verbatim>\<open>tokenize\<close>. In the source the literal is continued over
  lines with a backslash, which leaves the twelve blanks of each continuation line's
  indentation in the string.
\<close>

definition tokenize_cmd :: "data_downloader \<Rightarrow> string \<Rightarrow> string" where
  "tokenize_cmd d jsonl_filepath =
     (let parent_folder = join (base_dir d) [name d];
          cmd = ''python tools/datasets/preprocess_data.py ''
              @ ''            --input '' @ jsonl_filepath @ '' ''
              @ ''            --output-prefix '' @ parent_folder @ ''/'' @ name d @ '' ''
              @ ''            --vocab '' @ fmt_opt (vocab_file d) @ '' ''
              @ ''            --dataset-impl mmap ''
              @ ''            --tokenizer-type '' @ tokenizer_type d @ '' ''
              @ ''            --merge-file '' @ merge_file d @ '' ''
              @ ''            --append-eod ''
              @ ''            --workers '' @ str_int (num_workers d) @ '' '';
          cmd1 = (case num_docs d of
                    None \<Rightarrow> cmd
                  | Some n \<Rightarrow> cmd @ ''--num-docs '' @ str_int n @ '' '');
          cmd2 = (if ftfy d then cmd1 @ ''--ftfy '' else cmd1)
      in cmd2)"

text \<open>\<^verbatim>\<open>tokenize\<close> runs the command and drops its exit status.\<close>

definition tokenize :: "os \<Rightarrow> data_downloader \<Rightarrow> string option \<Rightarrow> event list \<Rightarrow> unit result" where
  "tokenize env d jsonl_filepath tr =
     (case jsonl_input d jsonl_filepath of
        Inl e \<Rightarrow> (Inl e, tr)
      | Inr p \<Rightarrow>
          (let cmd = tokenize_cmd d p;
               status = system env tr cmd
           in (Inr (), tr @ [System cmd])))"

section \<open>Packaging of a custom corpus\<close>

definition zip_file_path :: string where
  "zip_file_path = ''/content/gpt-neox/data/text_file.zip''"

definition is_txt_file :: "string \<Rightarrow> bool" where
  "is_txt_file f = (endswith f ''.txt'' \<and> f \<noteq> ''gpt2-merges.txt'')"

text \<open>The loop inside the \<^verbatim>\<open>with\<close> block: one archive member per text file.\<close>

fun zip_loop :: "data_downloader \<Rightarrow> string list \<Rightarrow> event list \<Rightarrow> event list" where
  "zip_loop d [] tr = tr"
| "zip_loop d (txt_file # fs) tr =
     (let file_path = join (base_dir d) [txt_file]
      in zip_loop d fs (tr @ [ZipWrite zip_file_path file_path (basename file_path)]))"

text \<open>
  \<^verbatim>\<open>customdataset_from_text\<close>. The archive is opened for writing at the fixed path
  after the assertion; when the open raises, nothing has been written.
\<close>

definition customdataset_from_text :: "os \<Rightarrow> data_downloader \<Rightarrow> event list \<Rightarrow> unit result" where
  "customdataset_from_text env d tr =
     (let tr1 = tr @ [MakeDirs (join (base_dir d) [name d])];
          download_dir = join (base_dir d) [name d];
          txt_files = filter is_txt_file (listdir env tr1 (base_dir d))
      in if txt_files = []
         then (Inl (AssertionError (''No textfile found at '' @ base_dir d @ ''.'')), tr1)
         else (case zipfile_open env tr1 zip_file_path of
                 Some e \<Rightarrow> (Inl e, tr1)
               | None \<Rightarrow>
                   (Inr (), zip_loop d txt_files (tr1 @ [ZipOpen zip_file_path])
                            @ [ZipClose zip_file_path])))"

section \<open>Preparation\<close>

definition prepare :: "os \<Rightarrow> data_downloader \<Rightarrow> event list \<Rightarrow> unit result" where
  "prepare env d tr =
     (if name d = ''customdataset'' then
        (case customdataset_from_text env d tr of
           (Inl e, tr1) \<Rightarrow> (Inl e, tr1)
         | (Inr u, tr1) \<Rightarrow>
             tokenize env d (Some (join (join (base_dir d) [name d]) [name d @ ''.zip''])) tr1)
      else if force_redownload d then
        (case download env d tr of
           (Inl e, tr1) \<Rightarrow> (Inl e, tr1)
         | (Inr u, tr1) \<Rightarrow> tokenize env d None tr1)
      else
        (case (if \<not> exists env d tr then download env d tr else (Inr (), tr)) of
           (Inl e, tr1) \<Rightarrow> (Inl e, tr1)
         | (Inr u, tr1) \<Rightarrow> tokenize env d None tr1))"

section \<open>The registry\<close>

definition Enron :: downloader_class where
  "Enron =
     \<lparr> cls_name = ''enron'',
       cls_urls = Some [''http://eaidata.bmk.sh/data/enron_emails.jsonl.zst''],
       cls_num_docs = Some 517401 \<rparr>"

definition PileSubset :: downloader_class where
  "PileSubset =
     \<lparr> cls_name = ''pile_00'',
       cls_urls = Some [''https://the-eye.eu/public/AI/pile/train/00.jsonl.zst''],
       cls_num_docs = None \<rparr>"

definition Pile :: downloader_class where
  "Pile =
     \<lparr> cls_name = ''pile'',
       cls_urls = Some (map (\<lambda>i. ''https://the-eye.eu/public/AI/pile/train/'' @ zero_pad 2 i @ ''.jsonl.zst'') [0..<30]),
       cls_num_docs = None \<rparr>"

definition Github :: downloader_class where
  "Github =
     \<lparr> cls_name = ''github'',
       cls_urls = Some [''http://eaidata.bmk.sh/data/github_small.jsonl.zst''],
       cls_num_docs = None \<rparr>"

definition ArXiv :: downloader_class where
  "ArXiv =
     \<lparr> cls_name = ''arxiv'',
       cls_urls = Some [''https://the-eye.eu/public/AI/pile_preliminary_components/2020-09-08-arxiv-extracts-nofallback-until-2007-068.tar.gz''],
       cls_num_docs = None \<rparr>"

definition EuroParl :: downloader_class where
  "EuroParl =
     \<lparr> cls_name = ''europarl'',
       cls_urls = Some [''https://the-eye.eu/public/AI/pile_preliminary_components/EuroParliamentProceedings_1996_2011.jsonl.zst''],
       cls_num_docs = None \<rparr>"

definition FreeLaw :: downloader_class where
  "FreeLaw =
     \<lparr> cls_name = ''freelaw'',
       cls_urls = Some [''https://the-eye.eu/public/AI/pile_preliminary_components/FreeLaw_Opinions.jsonl.zst''],
       cls_num_docs = None \<rparr>"

definition NiH :: downloader_class where
  "NiH =
     \<lparr> cls_name = ''nih'',
       cls_urls = Some [''https://the-eye.eu/public/AI/pile_preliminary_components/NIH_ExPORTER_awarded_grant_text.jsonl.zst''],
       cls_num_docs = None \<rparr>"

definition PubMed :: downloader_class where
  "PubMed =
     \<lparr> cls_name = ''pubmed'',
       cls_urls = Some [''https://the-eye.eu/public/AI/pile_preliminary_components/PMC_extracts.tar.gz''],
       cls_num_docs = None \<rparr>"

definition Books1 :: downloader_class where
  "Books1 =
     \<lparr> cls_name = ''books1'',
       cls_urls = Some [''https://the-eye.eu/public/AI/pile_preliminary_components/books1.tar.gz''],
       cls_num_docs = None \<rparr>"

definition Books3 :: downloader_class where
  "Books3 =
     \<lparr> cls_name = ''books3'',
       cls_urls = Some [''https://the-eye.eu/public/AI/pile_preliminary_components/books3.tar.gz''],
       cls_num_docs = None \<rparr>"

definition HackerNews :: downloader_class where
  "HackerNews =
     \<lparr> cls_name = ''hackernews'',
       cls_urls = Some [''https://the-eye.eu/public/AI/pile_preliminary_components/hn.tar.gz''],
       cls_num_docs = Some 373000 \<rparr>"

definition OpenWebText2 :: downloader_class where
  "OpenWebText2 =
     \<lparr> cls_name = ''openwebtext2'',
       cls_urls = Some [''https://huggingface.co/datasets/segyges/OpenWebText2/resolve/main/openwebtext2.jsonl.zst.tar''],
       cls_num_docs = Some 17103000 \<rparr>"

definition StackExchange :: downloader_class where
  "StackExchange =
     \<lparr> cls_name = ''stackexchange'',
       cls_urls = Some [''https://the-eye.eu/public/AI/pile_preliminary_components/stackexchange_dataset.tar''],
       cls_num_docs = None \<rparr>"

definition UbuntuIRC :: downloader_class where
  "UbuntuIRC =
     \<lparr> cls_name = ''ubuntu_irc'',
       cls_urls = Some [''https://the-eye.eu/public/AI/pile_preliminary_components/ubuntu_irc_until_2020_9_1.jsonl.zst''],
       cls_num_docs = None \<rparr>"

definition YoutubeSubtitles :: downloader_class where
  "YoutubeSubtitles =
     \<lparr> cls_name = ''youtube_subtitles'',
       cls_urls = Some [''https://the-eye.eu/public/AI/pile_preliminary_components/yt_subs.jsonl.zst''],
       cls_num_docs = None \<rparr>"

definition C4 :: downloader_class where
  "C4 =
     \<lparr> cls_name = ''c4'',
       cls_urls = Some (map (\<lambda>i. ''https://the-eye.eu/eleuther_staging/c4/en/c4-train.'' @ zero_pad 5 i @ ''-of-01024.json.gz'') [0..<1024]),
       cls_num_docs = None \<rparr>"

definition C4OpenWebText :: downloader_class where
  "C4OpenWebText =
     \<lparr> cls_name = ''c4_openwebtext'',
       cls_urls = Some (map (\<lambda>i. ''https://the-eye.eu/eleuther_staging/c4/realnewslike/c4-train.'' @ zero_pad 5 i @ ''-of-00512.json.gz'') [0..<512]),
       cls_num_docs = None \<rparr>"

definition CustomDataset :: downloader_class where
  "CustomDataset =
     \<lparr> cls_name = ''customdataset'',
       cls_urls = None,
       cls_num_docs = None \<rparr>"

text \<open>
  An entry of \<^verbatim>\<open>DATA_DOWNLOADERS\<close> is a downloader class or the string
  \<^verbatim>\<open>"pass"\<close>. The dictionary is kept as an association list in the order of the
  source, which is the order of \<^verbatim>\<open>list(DATA_DOWNLOADERS.keys())\<close>.
\<close>

datatype entry = Pass | Class downloader_class

definition DATA_DOWNLOADERS :: "(string \<times> entry) list" where
  "DATA_DOWNLOADERS =
     [(''pass'', Pass),
      (''enron'', Class Enron),
      (''pile_subset'', Class PileSubset),
      (''pile'', Class Pile),
      (''github'', Class Github),
      (''arxiv'', Class ArXiv),
      (''europarl'', Class EuroParl),
      (''freelaw'', Class FreeLaw),
      (''nih'', Class NiH),
      (''pubmed'', Class PubMed),
      (''books1'', Class Books1),
      (''books3'', Class Books3),
      (''hackernews'', Class HackerNews),
      (''openwebtext2'', Class OpenWebText2),
      (''stackexchange'', Class StackExchange),
      (''ubuntu_irc'', Class UbuntuIRC),
      (''youtube_subtitles'', Class YoutubeSubtitles),
      (''c4'', Class C4),
      (''c4_openwebtext'', Class C4OpenWebText),
      (''customdataset'', Class CustomDataset)]"

definition GPT2_VOCAB_URL :: string where
  "GPT2_VOCAB_URL = ''https://huggingface.co/datasets/RaviChandera/gpt2-vocab/raw/main/gpt2-vocab.json''"

definition GPT2_MERGE_URL :: string where
  "GPT2_MERGE_URL = ''https://huggingface.co/datasets/RaviChandera/gpt2-merges/raw/main/gpt2-merges.txt''"

text \<open>
  \<^verbatim>\<open>maybe_download_gpt2_tokenizer_data\<close>: for the byte-pair tokenizer (or none
  given), fetch the vocabulary and the merge table that are not files yet. The second
  test is made after the first fetch.
\<close>

definition maybe_download_gpt2_tokenizer_data ::
  "os \<Rightarrow> string option \<Rightarrow> string \<Rightarrow> event list \<Rightarrow> event list" where
  "maybe_download_gpt2_tokenizer_data env tokenizer_type0 data_dir0 tr =
     (if tokenizer_type0 = None \<or> tokenizer_type0 = Some ''GPT2BPETokenizer'' then
        (let GPT2_VOCAB_FP = data_dir0 @ ''//gpt2-vocab.json'';
             GPT2_MERGE_FP = data_dir0 @ ''/gpt2-merges.txt'';
             tr1 = (if \<not> isfile env tr GPT2_VOCAB_FP
                    then tr @ [System (''wget '' @ GPT2_VOCAB_URL @ '' -O '' @ GPT2_VOCAB_FP)]
                    else tr);
             tr2 = (if \<not> isfile env tr1 GPT2_MERGE_FP
                    then tr1 @ [System (''wget '' @ GPT2_MERGE_URL @ '' -O '' @ GPT2_MERGE_FP)]
                    else tr1)
         in tr2)
      else tr)"

definition not_recognized :: "string \<Rightarrow> error" where
  "not_recognized dataset_name0 =
     NotImplementedError
       (''Dataset '' @ [CHR 0x22] @ dataset_name0 @ [CHR 0x22]
        @ '' not recognized - please choose from '' @ repr_list (map fst DATA_DOWNLOADERS))"

text \<open>
  \<^verbatim>\<open>prepare_dataset\<close>. The storage root is created and the tokenizer data looked
  after before the name is looked up; the worker count of the caller is overwritten
  with 1 before the downloader is built.
\<close>

definition prepare_dataset ::
  "os \<Rightarrow> string \<Rightarrow> string option \<Rightarrow> string option \<Rightarrow> string option \<Rightarrow> string option \<Rightarrow>
   bool option \<Rightarrow> int option \<Rightarrow> event list \<Rightarrow> unit result" where
  "prepare_dataset env dataset_name0 tokenizer_type0 data_dir0 vocab_file0 merge_file0
        force_redownload0 num_workers0 tr =
     (let data_dir1 =
            (case data_dir0 of None \<Rightarrow> environ_get env ''DATA_DIR'' ''./data'' | Some d \<Rightarrow> d);
          tr1 = tr @ [MakeDirs data_dir1];
          tr2 = maybe_download_gpt2_tokenizer_data env tokenizer_type0 data_dir1 tr1
      in case map_of DATA_DOWNLOADERS (lower env (split0 dataset_name0)) of
           None \<Rightarrow> (Inl (not_recognized dataset_name0), tr2)
         | Some Pass \<Rightarrow> (Inr (), tr2)
         | Some (Class DownloaderClass) \<Rightarrow>
             (let num_workers1 = 1;
                  ds_name = (if split0 dataset_name0 \<in> set [''customdataset'']
                             then Some dataset_name0 else None)
              in case init env DownloaderClass tokenizer_type0 merge_file0 vocab_file0
                        (Some data_dir1) force_redownload0 (Some num_workers1) ds_name of
                   Inl e \<Rightarrow> (Inl e, tr2)
                 | Inr d \<Rightarrow> prepare env d tr2))"

section \<open>Sample worlds and downloaders\<close>

text \<open>
  A fresh machine: no dataset directory and no tokenizer file exists, the storage root
  lists two text files, a note, the merge table and the dataset directory, every command
  exits with status 0, the directory \<^verbatim>\<open>/content/gpt-neox/data\<close> exists so that the
  archive can be opened, and \<^verbatim>\<open>DATA_DIR\<close> is not set. No name used below holds a
  code point for which \<^verbatim>\<open>str_lower\<close> is asked.
\<close>

definition env_fresh :: os where
  "env_fresh =
     \<lparr> isdir = (\<lambda>tr p. False), isfile = (\<lambda>tr p. False),
       listdir = (\<lambda>tr p. [''a.txt'', ''notes.md'', ''b.txt'', ''gpt2-merges.txt'', ''customdataset'']),
       system = (\<lambda>tr c. 0), zipfile_open = (\<lambda>tr p. None), environ = (\<lambda>k. None),
       cpu_count = 4, str_lower = (\<lambda>s. s) \<rparr>"

text \<open>
  The same machine without the directory \<^verbatim>\<open>/content/gpt-neox/data\<close>: opening the
  archive raises.
\<close>

definition env_no_archive_dir :: os where
  "env_no_archive_dir =
     env_fresh \<lparr> zipfile_open := (\<lambda>tr p. Some (FileNotFoundError
        (''[Errno 2] No such file or directory: '' @ [CHR 0x27] @ p @ [CHR 0x27]))) \<rparr>"

text \<open>The name \<^verbatim>\<open>hacKernews\<close> written with U+212A KELVIN SIGN for its fourth letter.\<close>

definition kelvin_name :: string where
  "kelvin_name = ''hac'' @ [CHR 0xE2, CHR 0x84, CHR 0xAA] @ ''ernews''"

text \<open>The same machine on which every command after the first two events exits with status 8.\<close>

definition env_down :: os where
  "env_down = env_fresh \<lparr> system := (\<lambda>tr c. if length tr < 2 then 0 else 8) \<rparr>"

text \<open>
  The instances that \<^verbatim>\<open>Pile(data_dir="./data", force_redownload=True, num_workers=1)\<close>
  and \<^verbatim>\<open>Enron(data_dir="./data", num_workers=1)\<close> build.
\<close>

definition pile :: data_downloader where
  "pile = \<lparr> name = cls_name Pile, urls = cls_urls Pile, num_docs = cls_num_docs Pile,
       tokenizer_type = ''GPT2BPETokenizer'', merge_file = ''./data/gpt2-merges.txt'',
       vocab_file = Some ''./data/gpt2-vocab.json'', data_dir = ''./data'',
       force_redownload = True, num_workers = 1, dataset_name = None \<rparr>"

definition enron :: data_downloader where
  "enron = \<lparr> name = cls_name Enron, urls = cls_urls Enron, num_docs = cls_num_docs Enron,
       tokenizer_type = ''GPT2BPETokenizer'', merge_file = ''./data/gpt2-merges.txt'',
       vocab_file = Some ''./data/gpt2-vocab.json'', data_dir = ''./data'',
       force_redownload = False, num_workers = 1, dataset_name = None \<rparr>"

text \<open>The fresh machine on which the directory of the Enron dataset exists already.\<close>

definition env_cached :: os where
  "env_cached = env_fresh \<lparr> isdir := (\<lambda>tr p. p = ''./data/enron'') \<rparr>"

text \<open>The fresh machine on which every command exits with status 1.\<close>

definition env_fail :: os where
  "env_fail = env_fresh \<lparr> system := (\<lambda>tr c. 1) \<rparr>"

text \<open>
  The instance that \<^verbatim>\<open>CustomDataset(data_dir="./data", num_workers=1)\<close> builds.
\<close>

definition custom :: data_downloader where
  "custom = \<lparr> name = cls_name CustomDataset, urls = cls_urls CustomDataset,
       num_docs = cls_num_docs CustomDataset,
       tokenizer_type = ''GPT2BPETokenizer'', merge_file = ''./data/gpt2-merges.txt'',
       vocab_file = Some ''./data/gpt2-vocab.json'', data_dir = ''./data'',
       force_redownload = False, num_workers = 1, dataset_name = None \<rparr>"

text \<open>The fresh machine whose storage root holds the merge table and a note only.\<close>

definition env_no_text :: os where
  "env_no_text = env_fresh \<lparr> listdir := (\<lambda>tr p. [''gpt2-merges.txt'', ''notes.md'']) \<rparr>"

text \<open>The fresh machine on which both tokenizer files exist already.\<close>

definition env_assets :: os where
  "env_assets = env_fresh \<lparr> isfile := (\<lambda>tr p. True) \<rparr>"

text \<open>
  The end of a transform command line for a worker count \<open>w\<close> and a document count:
  what follows \<^verbatim>\<open>--append-eod\<close> in the command of \<^verbatim>\<open>tokenize\<close>.
\<close>

definition workers_suffix :: "int \<Rightarrow> int option \<Rightarrow> string" where
  "workers_suffix w nd =
     ''--workers '' @ str_int w @ '' ''
     @ (case nd of None \<Rightarrow> [] | Some k \<Rightarrow> ''--num-docs '' @ str_int k @ '' '')"

text \<open>
  An event keeps a suffix when it is not a run of the preprocessing script or is one
  whose command line ends with that suffix.
\<close>

definition keeps_suffix :: "string \<Rightarrow> event \<Rightarrow> bool" where
  "keeps_suffix sfx e =
     (case e of
        System cmd \<Rightarrow>
          \<not> startswith cmd ''python tools/datasets/preprocess_data.py '' \<or> endswith cmd sfx
      | _ \<Rightarrow> True)"

section \<open>The fetch loop\<close>

text \<open>
  The loop is characterised by the exit statuses it meets: when every fetch exits with
  zero it runs all of them, and when the fetch of index \<open>k\<close> is the first to exit
  otherwise it stops right after that one.
\<close>

lemma download_loop_ok:
  "(\<forall>k<length us. system env (tr @ map (\<lambda>u. System (wget_cmd d u)) (take k us)) (wget_cmd d (us ! k)) = 0)
   \<Longrightarrow> download_loop env d us tr = (Inr (), tr @ map (\<lambda>u. System (wget_cmd d u)) us)"
proof (induction us arbitrary: tr)
  case Nil
  then show ?case by simp
next
  case (Cons u us)
  from Cons.prems have h0: "system env tr (wget_cmd d u) = 0"
    by (metis length_greater_0_conv list.distinct(1) append_Nil2 list.simps(8) nth_Cons_0 take_0)
  have "\<forall>k<length us. system env ((tr @ [System (wget_cmd d u)]) @ map (\<lambda>u. System (wget_cmd d u)) (take k us))
          (wget_cmd d (us ! k)) = 0"
  proof (intro allI impI)
    fix k assume "k < length us"
    then have "Suc k < length (u # us)" by simp
    from Cons.prems[rule_format, OF this] show "system env ((tr @ [System (wget_cmd d u)]) @ map (\<lambda>u. System (wget_cmd d u)) (take k us))
          (wget_cmd d (us ! k)) = 0" by simp
  qed
  from Cons.IH[OF this] h0 show ?case by (simp add: Let_def)
qed

lemma download_loop_fail:
  "k < length us \<Longrightarrow>
   (\<forall>j<k. system env (tr @ map (\<lambda>u. System (wget_cmd d u)) (take j us)) (wget_cmd d (us ! j)) = 0) \<Longrightarrow>
   system env (tr @ map (\<lambda>u. System (wget_cmd d u)) (take k us)) (wget_cmd d (us ! k)) \<noteq> 0
   \<Longrightarrow> download_loop env d us tr =
         (Inl (download_error (us ! k)), tr @ map (\<lambda>u. System (wget_cmd d u)) (take (Suc k) us))"
proof (induction us arbitrary: tr k)
  case Nil
  then show ?case by simp
next
  case (Cons u us)
  show ?case
  proof (cases k)
    case 0
    with Cons.prems show ?thesis by (simp add: Let_def)
  next
    case (Suc k')
    from Cons.prems(2)[rule_format, of 0] Suc have h0: "system env tr (wget_cmd d u) = 0" by simp
    have a: "k' < length us" using Cons.prems(1) Suc by simp
    have b: "\<forall>j<k'. system env ((tr @ [System (wget_cmd d u)]) @ map (\<lambda>u. System (wget_cmd d u)) (take j us))
          (wget_cmd d (us ! j)) = 0"
    proof (intro allI impI)
      fix j assume "j < k'"
      then have "Suc j < k" using Suc by simp
      from Cons.prems(2)[rule_format, OF this] show "system env ((tr @ [System (wget_cmd d u)]) @ map (\<lambda>u. System (wget_cmd d u)) (take j us))
          (wget_cmd d (us ! j)) = 0" by simp
    qed
    have c: "system env ((tr @ [System (wget_cmd d u)]) @ map (\<lambda>u. System (wget_cmd d u)) (take k' us)) (wget_cmd d (us ! k')) \<noteq> 0"
      using Cons.prems(3) Suc by simp
    from Cons.IH[OF a b c] h0 Suc show ?thesis by (simp add: Let_def)
  qed
qed

section \<open>Acquisition stops at the first failure and tests no file\<close>

text \<open>
  Claim C7. \<^verbatim>\<open>download\<close> creates the dataset directory and then fetches the declared
  sources in order. If every fetch exits with status zero, all of them are fetched and the
  call returns. If the fetch of index \<open>k\<close> is the first with another status, the call
  raises the download error naming that source, and the events are the directory creation
  and the fetches up to and including that one: nothing is removed afterwards. Whether a
  file or directory exists is never asked: replacing the answers of \<^verbatim>\<open>isfile\<close>,
  \<^verbatim>\<open>isdir\<close> and \<^verbatim>\<open>listdir\<close> changes nothing.
\<close>

theorem download_first_failure:
  assumes "urls d = Some us"
  shows "((\<forall>k<length us.
             system env (tr @ MakeDirs (join (data_dir d) [name d]) # map (\<lambda>u. System (wget_cmd d u)) (take k us))
               (wget_cmd d (us ! k)) = 0)
          \<longrightarrow> download env d tr =
                (Inr (), tr @ MakeDirs (join (data_dir d) [name d]) # map (\<lambda>u. System (wget_cmd d u)) us))
       \<and> (\<forall>k<length us.
            (\<forall>j<k. system env (tr @ MakeDirs (join (data_dir d) [name d]) # map (\<lambda>u. System (wget_cmd d u)) (take j us))
                      (wget_cmd d (us ! j)) = 0)
            \<and> system env (tr @ MakeDirs (join (data_dir d) [name d]) # map (\<lambda>u. System (wget_cmd d u)) (take k us))
                 (wget_cmd d (us ! k)) \<noteq> 0
            \<longrightarrow> download env d tr =
                  (Inl (download_error (us ! k)),
                   tr @ MakeDirs (join (data_dir d) [name d]) # map (\<lambda>u. System (wget_cmd d u)) (take (Suc k) us)))
       \<and> download (env\<lparr>isfile := f, isdir := g, listdir := h\<rparr>) d tr = download env d tr"
proof (intro conjI impI allI)
  assume "\<forall>k<length us.
             system env (tr @ MakeDirs (join (data_dir d) [name d]) # map (\<lambda>u. System (wget_cmd d u)) (take k us))
               (wget_cmd d (us ! k)) = 0"
  then have "\<forall>k<length us.
             system env ((tr @ [MakeDirs (join (data_dir d) [name d])]) @ map (\<lambda>u. System (wget_cmd d u)) (take k us))
               (wget_cmd d (us ! k)) = 0" by simp
  from download_loop_ok[OF this] assms
  show "download env d tr =
                (Inr (), tr @ MakeDirs (join (data_dir d) [name d]) # map (\<lambda>u. System (wget_cmd d u)) us)"
    by (simp add: download_def base_dir_def)
next
  fix k
  assume k: "k < length us"
  assume h: "(\<forall>j<k. system env (tr @ MakeDirs (join (data_dir d) [name d]) # map (\<lambda>u. System (wget_cmd d u)) (take j us))
                      (wget_cmd d (us ! j)) = 0)
            \<and> system env (tr @ MakeDirs (join (data_dir d) [name d]) # map (\<lambda>u. System (wget_cmd d u)) (take k us))
                 (wget_cmd d (us ! k)) \<noteq> 0"
  then have a: "\<forall>j<k. system env ((tr @ [MakeDirs (join (data_dir d) [name d])]) @ map (\<lambda>u. System (wget_cmd d u)) (take j us))
                      (wget_cmd d (us ! j)) = 0" by simp
  from h have b: "system env ((tr @ [MakeDirs (join (data_dir d) [name d])]) @ map (\<lambda>u. System (wget_cmd d u)) (take k us))
                 (wget_cmd d (us ! k)) \<noteq> 0" by simp
  from download_loop_fail[OF k a b] assms
  show "download env d tr =
                  (Inl (download_error (us ! k)),
                   tr @ MakeDirs (join (data_dir d) [name d]) # map (\<lambda>u. System (wget_cmd d u)) (take (Suc k) us))"
    by (simp add: download_def base_dir_def)
next
  have "\<And>t. download_loop (env\<lparr>isfile := f, isdir := g, listdir := h\<rparr>) d us t = download_loop env d us t"
    by (induction us) (simp_all add: Let_def)
  then show "download (env\<lparr>isfile := f, isdir := g, listdir := h\<rparr>) d tr = download env d tr"
    using assms by (simp add: download_def Let_def del: join.simps)
qed

theorem download_first_failure_witness:
  "download env_down pile [] =
     (Inl (Exception ''Download error: Cannot download file at URL https://the-eye.eu/public/AI/pile/train/01.jsonl.zst: server may be down''),
      [MakeDirs ''./data/pile'',
       System ''wget https://the-eye.eu/public/AI/pile/train/00.jsonl.zst -O ./data/pile/00.jsonl.zst'',
       System ''wget https://the-eye.eu/public/AI/pile/train/01.jsonl.zst -O ./data/pile/01.jsonl.zst''])
   \<and> download env_fresh enron [] =
     (Inr (),
      [MakeDirs ''./data/enron'',
       System ''wget http://eaidata.bmk.sh/data/enron_emails.jsonl.zst -O ./data/enron/enron_emails.jsonl.zst''])"
proof -
  define us where "us = map (\<lambda>i. ''https://the-eye.eu/public/AI/pile/train/'' @ zero_pad 2 i @ ''.jsonl.zst'') [0..<30]"
  have p: "urls pile = Some us"
    by (simp add: pile_def Pile_def us_def)
  have len: "length us = 30"
    by (simp add: us_def)
  have a: "\<forall>j<1. system env_down ([] @ MakeDirs (join (data_dir pile) [name pile]) #
              map (\<lambda>u. System (wget_cmd pile u)) (take j us)) (wget_cmd pile (us ! j)) = 0"
    by (simp add: env_down_def)
  have b: "system env_down ([] @ MakeDirs (join (data_dir pile) [name pile]) #
              map (\<lambda>u. System (wget_cmd pile u)) (take 1 us)) (wget_cmd pile (us ! 1)) \<noteq> 0"
    by (simp add: env_down_def len)
  have z: "zero_pad 2 0 = ''00''" "zero_pad 2 (Suc 0) = ''01''"
    by (simp_all add: zero_pad_def str_nat.simps digit_def)
  have t: "take (Suc 1) us = [''https://the-eye.eu/public/AI/pile/train/00.jsonl.zst'',
                              ''https://the-eye.eu/public/AI/pile/train/01.jsonl.zst'']"
    by (simp add: us_def take_map upt_rec z)
  have n: "us ! 1 = ''https://the-eye.eu/public/AI/pile/train/01.jsonl.zst''"
    by (simp add: us_def z)
  have 1: "download env_down pile [] =
     (Inl (download_error (us ! 1)),
      [] @ MakeDirs (join (data_dir pile) [name pile]) # map (\<lambda>u. System (wget_cmd pile u)) (take (Suc 1) us))"
    using download_first_failure [OF p, of env_down "[]", THEN conjunct2, THEN conjunct1, rule_format, of 1]
      a b len by simp
  have e: "urls enron = Some [''http://eaidata.bmk.sh/data/enron_emails.jsonl.zst'']"
    by (simp add: enron_def Enron_def)
  have 2: "download env_fresh enron [] =
     (Inr (),
      [] @ MakeDirs (join (data_dir enron) [name enron])
         # map (\<lambda>u. System (wget_cmd enron u)) [''http://eaidata.bmk.sh/data/enron_emails.jsonl.zst''])"
    using download_first_failure [OF e, of env_fresh "[]", THEN conjunct1]
    by (simp add: env_fresh_def)
  have 3: "join (data_dir pile) [name pile] = ''./data/pile''"
    "join (data_dir enron) [name enron] = ''./data/enron''"
    by (simp_all add: pile_def Pile_def enron_def Enron_def startswith_def endswith_def)
  have 4: "wget_cmd pile ''https://the-eye.eu/public/AI/pile/train/00.jsonl.zst'' =
            ''wget https://the-eye.eu/public/AI/pile/train/00.jsonl.zst -O ./data/pile/00.jsonl.zst''"
    "wget_cmd pile ''https://the-eye.eu/public/AI/pile/train/01.jsonl.zst'' =
            ''wget https://the-eye.eu/public/AI/pile/train/01.jsonl.zst -O ./data/pile/01.jsonl.zst''"
    "wget_cmd enron ''http://eaidata.bmk.sh/data/enron_emails.jsonl.zst'' =
            ''wget http://eaidata.bmk.sh/data/enron_emails.jsonl.zst -O ./data/enron/enron_emails.jsonl.zst''"
    by (simp_all add: wget_cmd_def base_dir_def basename_def pile_def Pile_def enron_def Enron_def
        startswith_def endswith_def)
  show ?thesis
    unfolding 1 2 t n 3 by (simp add: 4 download_error_def)
qed

section \<open>Preparation of a downloaded dataset\<close>

lemma tokenize_input:
  "jsonl_input d p = Inr inp \<Longrightarrow> tokenize env d p tr = (Inr (), tr @ [System (tokenize_cmd d inp)])"
  by (simp add: tokenize_def Let_def)

lemma jsonl_input_urls:
  "urls d = Some us \<Longrightarrow>
   jsonl_input d None = Inr (str_join '','' (map (\<lambda>u. join (join (data_dir d) [name d]) [basename u]) us))"
  by (simp add: jsonl_input_def base_dir_def Let_def del: join.simps)

text \<open>
  Claim C2, as amended. For a downloader other than the custom one, with declared sources:
  if no refresh is forced and the dataset directory exists, \<^verbatim>\<open>prepare\<close> runs the
  transform once and fetches nothing; if a refresh is forced or the directory is absent and
  every fetch exits with status zero, it creates the directory, fetches every source once,
  in order, and then runs the transform once; if a fetch fails, it raises the download
  error after that fetch and the transform does not run.
\<close>

theorem prepare_acquires_iff_forced_or_absent:
  assumes "name d \<noteq> ''customdataset''" and "urls d = Some us"
  shows
   "(\<not> force_redownload d \<and> isdir env tr (data_dir d @ ''/'' @ name d) \<longrightarrow>
       prepare env d tr =
         (Inr (), tr @ [System (tokenize_cmd d
            (str_join '','' (map (\<lambda>u. join (join (data_dir d) [name d]) [basename u]) us)))]))
  \<and> ((force_redownload d \<or> \<not> isdir env tr (data_dir d @ ''/'' @ name d)) \<and>
       (\<forall>k<length us.
          system env (tr @ MakeDirs (join (data_dir d) [name d]) # map (\<lambda>u. System (wget_cmd d u)) (take k us))
            (wget_cmd d (us ! k)) = 0) \<longrightarrow>
       prepare env d tr =
         (Inr (), tr @ MakeDirs (join (data_dir d) [name d]) # map (\<lambda>u. System (wget_cmd d u)) us
                  @ [System (tokenize_cmd d
                       (str_join '','' (map (\<lambda>u. join (join (data_dir d) [name d]) [basename u]) us)))]))
  \<and> (\<forall>k<length us.
       (force_redownload d \<or> \<not> isdir env tr (data_dir d @ ''/'' @ name d)) \<and>
       (\<forall>j<k. system env (tr @ MakeDirs (join (data_dir d) [name d]) # map (\<lambda>u. System (wget_cmd d u)) (take j us))
                 (wget_cmd d (us ! j)) = 0) \<and>
       system env (tr @ MakeDirs (join (data_dir d) [name d]) # map (\<lambda>u. System (wget_cmd d u)) (take k us))
         (wget_cmd d (us ! k)) \<noteq> 0 \<longrightarrow>
       prepare env d tr =
         (Inl (download_error (us ! k)),
          tr @ MakeDirs (join (data_dir d) [name d]) # map (\<lambda>u. System (wget_cmd d u)) (take (Suc k) us)))"
proof (intro conjI impI allI)
  assume "\<not> force_redownload d \<and> isdir env tr (data_dir d @ ''/'' @ name d)"
  then show "prepare env d tr =
         (Inr (), tr @ [System (tokenize_cmd d
            (str_join '','' (map (\<lambda>u. join (join (data_dir d) [name d]) [basename u]) us)))])"
    using assms(1) tokenize_input[OF jsonl_input_urls[OF assms(2)]]
    by (simp add: prepare_def exists_def base_dir_def)
next
  assume h: "(force_redownload d \<or> \<not> isdir env tr (data_dir d @ ''/'' @ name d)) \<and>
       (\<forall>k<length us.
          system env (tr @ MakeDirs (join (data_dir d) [name d]) # map (\<lambda>u. System (wget_cmd d u)) (take k us))
            (wget_cmd d (us ! k)) = 0)"
  then have "\<forall>k<length us.
          system env ((tr @ [MakeDirs (join (data_dir d) [name d])]) @ map (\<lambda>u. System (wget_cmd d u)) (take k us))
            (wget_cmd d (us ! k)) = 0" by simp
  from download_loop_ok[OF this] assms(2)
  have dl: "download env d tr =
         (Inr (), tr @ MakeDirs (join (data_dir d) [name d]) # map (\<lambda>u. System (wget_cmd d u)) us)"
    by (simp add: download_def base_dir_def Let_def del: join.simps)
  from h assms(1) dl tokenize_input[OF jsonl_input_urls[OF assms(2)]]
  show "prepare env d tr =
         (Inr (), tr @ MakeDirs (join (data_dir d) [name d]) # map (\<lambda>u. System (wget_cmd d u)) us
                  @ [System (tokenize_cmd d
                       (str_join '','' (map (\<lambda>u. join (join (data_dir d) [name d]) [basename u]) us)))])"
    by (auto simp add: prepare_def exists_def base_dir_def simp del: join.simps)
next
  fix k
  assume k: "k < length us"
  assume h: "(force_redownload d \<or> \<not> isdir env tr (data_dir d @ ''/'' @ name d)) \<and>
       (\<forall>j<k. system env (tr @ MakeDirs (join (data_dir d) [name d]) # map (\<lambda>u. System (wget_cmd d u)) (take j us))
                 (wget_cmd d (us ! j)) = 0) \<and>
       system env (tr @ MakeDirs (join (data_dir d) [name d]) # map (\<lambda>u. System (wget_cmd d u)) (take k us))
         (wget_cmd d (us ! k)) \<noteq> 0"
  then have a: "\<forall>j<k. system env ((tr @ [MakeDirs (join (data_dir d) [name d])]) @ map (\<lambda>u. System (wget_cmd d u)) (take j us))
                      (wget_cmd d (us ! j)) = 0" by simp
  from h have b: "system env ((tr @ [MakeDirs (join (data_dir d) [name d])]) @ map (\<lambda>u. System (wget_cmd d u)) (take k us))
                 (wget_cmd d (us ! k)) \<noteq> 0" by simp
  from download_loop_fail[OF k a b] assms(2)
  have dl: "download env d tr =
                  (Inl (download_error (us ! k)),
                   tr @ MakeDirs (join (data_dir d) [name d]) # map (\<lambda>u. System (wget_cmd d u)) (take (Suc k) us))"
    by (simp add: download_def base_dir_def Let_def del: join.simps)
  from h assms(1) dl
  show "prepare env d tr =
         (Inl (download_error (us ! k)),
          tr @ MakeDirs (join (data_dir d) [name d]) # map (\<lambda>u. System (wget_cmd d u)) (take (Suc k) us))"
    by (auto simp add: prepare_def exists_def base_dir_def simp del: join.simps)
qed

text \<open>Evaluation of the sample downloaders.\<close>

lemma pile_urls:
  "urls pile = Some (map (\<lambda>i. ''https://the-eye.eu/public/AI/pile/train/'' @ zero_pad 2 i @ ''.jsonl.zst'') [0..<30])"
  by (simp add: pile_def Pile_def)

lemma zero_pad_00: "zero_pad 2 0 = ''00''"
  by (simp add: zero_pad_def str_nat.simps digit_def)

lemma zero_pad_01: "zero_pad 2 (Suc 0) = ''01''"
  by (simp add: zero_pad_def str_nat.simps digit_def)

lemma pile_take2:
  "take (Suc 1) (map (\<lambda>i. ''https://the-eye.eu/public/AI/pile/train/'' @ zero_pad 2 i @ ''.jsonl.zst'') [0..<30]) =
     [''https://the-eye.eu/public/AI/pile/train/00.jsonl.zst'',
      ''https://the-eye.eu/public/AI/pile/train/01.jsonl.zst'']"
  by (simp add: take_map upt_rec zero_pad_00 zero_pad_01)

lemma pile_nth1:
  "map (\<lambda>i. ''https://the-eye.eu/public/AI/pile/train/'' @ zero_pad 2 i @ ''.jsonl.zst'') [0..<30] ! 1 =
     ''https://the-eye.eu/public/AI/pile/train/01.jsonl.zst''"
  by (simp add: zero_pad_01)

lemma pile_dir: "join (data_dir pile) [name pile] = ''./data/pile''"
  by (simp add: pile_def Pile_def startswith_def endswith_def)

lemma pile_wget:
  "wget_cmd pile ''https://the-eye.eu/public/AI/pile/train/00.jsonl.zst'' =
     ''wget https://the-eye.eu/public/AI/pile/train/00.jsonl.zst -O ./data/pile/00.jsonl.zst''"
  "wget_cmd pile ''https://the-eye.eu/public/AI/pile/train/01.jsonl.zst'' =
     ''wget https://the-eye.eu/public/AI/pile/train/01.jsonl.zst -O ./data/pile/01.jsonl.zst''"
  by (simp_all add: wget_cmd_def base_dir_def basename_def pile_def Pile_def startswith_def endswith_def)

lemma enron_urls: "urls enron = Some [''http://eaidata.bmk.sh/data/enron_emails.jsonl.zst'']"
  by (simp add: enron_def Enron_def)

lemma enron_dir: "join (data_dir enron) [name enron] = ''./data/enron''"
  by (simp add: enron_def Enron_def startswith_def endswith_def)

lemma enron_wget:
  "wget_cmd enron ''http://eaidata.bmk.sh/data/enron_emails.jsonl.zst'' =
     ''wget http://eaidata.bmk.sh/data/enron_emails.jsonl.zst -O ./data/enron/enron_emails.jsonl.zst''"
  by (simp add: wget_cmd_def base_dir_def basename_def enron_def Enron_def startswith_def endswith_def)

lemma str_int_517401: "str_int 517401 = ''517401''"
  by (simp add: str_int_def str_nat.simps digit_def)

lemma str_int_1: "str_int 1 = ''1''"
  by (simp add: str_int_def str_nat.simps digit_def)

lemma enron_tokenize_cmd:
  "tokenize_cmd enron ''./data/enron/enron_emails.jsonl.zst'' =
     ''python tools/datasets/preprocess_data.py             --input ./data/enron/enron_emails.jsonl.zst             --output-prefix ./data/enron/enron             --vocab ./data/gpt2-vocab.json             --dataset-impl mmap             --tokenizer-type GPT2BPETokenizer             --merge-file ./data/gpt2-merges.txt             --append-eod             --workers 1 --num-docs 517401 ''"
  by (simp add: tokenize_cmd_def base_dir_def ftfy_def fmt_opt_def enron_def Enron_def
      startswith_def endswith_def str_int_517401 str_int_1)

lemma enron_input:
  "str_join '','' (map (\<lambda>u. join ''./data/enron'' [basename u])
      [''http://eaidata.bmk.sh/data/enron_emails.jsonl.zst'']) = ''./data/enron/enron_emails.jsonl.zst''"
  by (simp add: basename_def startswith_def endswith_def)

text \<open>
  The claim as stated has the transform run in every case, and every source fetched under
  a forced refresh. On the machine where every command fails, a forced refresh of Enron
  raises after the first fetch and no transform is run.
\<close>

theorem prepare_failed_fetch_counterexample:
  "prepare env_fail (enron\<lparr>force_redownload := True\<rparr>) [] =
     (Inl (Exception ''Download error: Cannot download file at URL http://eaidata.bmk.sh/data/enron_emails.jsonl.zst: server may be down''),
      [MakeDirs ''./data/enron'',
       System ''wget http://eaidata.bmk.sh/data/enron_emails.jsonl.zst -O ./data/enron/enron_emails.jsonl.zst''])"
  by (simp add: prepare_def download_def download_error_def env_fail_def env_fresh_def
      wget_cmd_def base_dir_def basename_def enron_def Enron_def startswith_def endswith_def)

theorem prepare_acquires_iff_forced_or_absent_witness:
  "prepare env_cached enron [] =
     (Inr (),
      [System ''python tools/datasets/preprocess_data.py             --input ./data/enron/enron_emails.jsonl.zst             --output-prefix ./data/enron/enron             --vocab ./data/gpt2-vocab.json             --dataset-impl mmap             --tokenizer-type GPT2BPETokenizer             --merge-file ./data/gpt2-merges.txt             --append-eod             --workers 1 --num-docs 517401 ''])
   \<and> prepare env_fresh enron [] =
     (Inr (),
      [MakeDirs ''./data/enron'',
       System ''wget http://eaidata.bmk.sh/data/enron_emails.jsonl.zst -O ./data/enron/enron_emails.jsonl.zst'',
       System ''python tools/datasets/preprocess_data.py             --input ./data/enron/enron_emails.jsonl.zst             --output-prefix ./data/enron/enron             --vocab ./data/gpt2-vocab.json             --dataset-impl mmap             --tokenizer-type GPT2BPETokenizer             --merge-file ./data/gpt2-merges.txt             --append-eod             --workers 1 --num-docs 517401 ''])
   \<and> prepare env_down pile [] =
     (Inl (Exception ''Download error: Cannot download file at URL https://the-eye.eu/public/AI/pile/train/01.jsonl.zst: server may be down''),
      [MakeDirs ''./data/pile'',
       System ''wget https://the-eye.eu/public/AI/pile/train/00.jsonl.zst -O ./data/pile/00.jsonl.zst'',
       System ''wget https://the-eye.eu/public/AI/pile/train/01.jsonl.zst -O ./data/pile/01.jsonl.zst''])"
proof -
  have ne: "name enron \<noteq> ''customdataset''" "name pile \<noteq> ''customdataset''"
    by (simp_all add: enron_def Enron_def pile_def Pile_def)
  have c: "\<not> force_redownload enron \<and> isdir env_cached [] (data_dir enron @ ''/'' @ name enron)"
    by (simp add: enron_def Enron_def env_cached_def)
  have 1: "prepare env_cached enron [] =
     (Inr (), [] @ [System (tokenize_cmd enron
        (str_join '','' (map (\<lambda>u. join (join (data_dir enron) [name enron]) [basename u])
           [''http://eaidata.bmk.sh/data/enron_emails.jsonl.zst''])))])"
    using prepare_acquires_iff_forced_or_absent [OF ne(1) enron_urls, of env_cached "[]", THEN conjunct1] c
    by blast
  have f: "(force_redownload enron \<or> \<not> isdir env_fresh [] (data_dir enron @ ''/'' @ name enron)) \<and>
       (\<forall>k<length [''http://eaidata.bmk.sh/data/enron_emails.jsonl.zst''].
          system env_fresh ([] @ MakeDirs (join (data_dir enron) [name enron]) #
              map (\<lambda>u. System (wget_cmd enron u)) (take k [''http://eaidata.bmk.sh/data/enron_emails.jsonl.zst'']))
            (wget_cmd enron ([''http://eaidata.bmk.sh/data/enron_emails.jsonl.zst''] ! k)) = 0)"
    by (simp add: env_fresh_def)
  have 2: "prepare env_fresh enron [] =
     (Inr (), [] @ MakeDirs (join (data_dir enron) [name enron]) #
        map (\<lambda>u. System (wget_cmd enron u)) [''http://eaidata.bmk.sh/data/enron_emails.jsonl.zst'']
        @ [System (tokenize_cmd enron
        (str_join '','' (map (\<lambda>u. join (join (data_dir enron) [name enron]) [basename u])
           [''http://eaidata.bmk.sh/data/enron_emails.jsonl.zst''])))])"
    using prepare_acquires_iff_forced_or_absent [OF ne(1) enron_urls, of env_fresh "[]", THEN conjunct2, THEN conjunct1] f
    by blast
  define us where "us = map (\<lambda>i. ''https://the-eye.eu/public/AI/pile/train/'' @ zero_pad 2 i @ ''.jsonl.zst'') [0..<30]"
  have p: "urls pile = Some us"
    by (simp add: pile_urls us_def)
  have len: "length us = 30" "1 < length us"
    by (simp_all add: us_def)
  have d: "(force_redownload pile \<or> \<not> isdir env_down [] (data_dir pile @ ''/'' @ name pile)) \<and>
       (\<forall>j<1. system env_down ([] @ MakeDirs (join (data_dir pile) [name pile]) #
              map (\<lambda>u. System (wget_cmd pile u)) (take j us)) (wget_cmd pile (us ! j)) = 0) \<and>
       system env_down ([] @ MakeDirs (join (data_dir pile) [name pile]) #
              map (\<lambda>u. System (wget_cmd pile u)) (take 1 us)) (wget_cmd pile (us ! 1)) \<noteq> 0"
    by (simp add: env_down_def len pile_def)
  have 3: "prepare env_down pile [] =
     (Inl (download_error (us ! 1)),
      [] @ MakeDirs (join (data_dir pile) [name pile]) # map (\<lambda>u. System (wget_cmd pile u)) (take (Suc 1) us))"
    using prepare_acquires_iff_forced_or_absent [OF ne(2) p, of env_down "[]", THEN conjunct2, THEN conjunct2,
        rule_format, OF len(2)] d
    by blast
  show ?thesis
    unfolding 1 2 3 enron_dir pile_dir enron_input
    unfolding us_def pile_take2 pile_nth1
    by (simp add: enron_tokenize_cmd enron_wget pile_wget download_error_def)
qed

section \<open>The exit status of the transform is dropped\<close>

text \<open>
  Claim C8. For every downloader and every input argument, the outcome of
  \<^verbatim>\<open>tokenize\<close> is the same whatever exit statuses the operating system reports.
  Whenever the input of the transform is determined (an explicit path, or declared
  sources), the command is run once and the call returns normally. The only error is
  that of iterating over absent sources, raised before any command is run.
\<close>

theorem tokenize_ignores_exit_status:
  "tokenize (env\<lparr>system := st\<rparr>) d p tr = tokenize env d p tr
   \<and> (\<forall>inp. jsonl_input d p = Inr inp \<longrightarrow>
         tokenize env d p tr = (Inr (), tr @ [System (tokenize_cmd d inp)]))
   \<and> (\<forall>e. jsonl_input d p = Inl e \<longrightarrow> tokenize env d p tr = (Inl e, tr))"
  by (simp add: tokenize_def Let_def split: sum.splits)

lemma enron_jsonl_input: "jsonl_input enron None = Inr ''./data/enron/enron_emails.jsonl.zst''"
  by (simp add: jsonl_input_def base_dir_def basename_def enron_def Enron_def startswith_def endswith_def)

lemma custom_jsonl_input: "jsonl_input custom None = Inl not_iterable"
  by (simp add: jsonl_input_def custom_def CustomDataset_def)

theorem tokenize_ignores_exit_status_witness:
  "tokenize env_fail enron None [] =
     (Inr (),
      [System ''python tools/datasets/preprocess_data.py             --input ./data/enron/enron_emails.jsonl.zst             --output-prefix ./data/enron/enron             --vocab ./data/gpt2-vocab.json             --dataset-impl mmap             --tokenizer-type GPT2BPETokenizer             --merge-file ./data/gpt2-merges.txt             --append-eod             --workers 1 --num-docs 517401 ''])
   \<and> tokenize env_fail enron None [] = tokenize env_fresh enron None []
   \<and> tokenize env_fail custom None [] = (Inl not_iterable, [])"
proof -
  have 1: "tokenize env_fail enron None [] =
     (Inr (), [] @ [System (tokenize_cmd enron ''./data/enron/enron_emails.jsonl.zst'')])"
    using tokenize_ignores_exit_status [where env = env_fail and d = enron and p = None and tr = "[]",
        THEN conjunct2, THEN conjunct1] enron_jsonl_input
    by blast
  have 2: "tokenize env_fail enron None [] = tokenize env_fresh enron None []"
    using tokenize_ignores_exit_status [where env = env_fresh and st = "\<lambda>tr c. 1" and d = enron
        and p = None and tr = "[]", THEN conjunct1]
    by (simp add: env_fail_def)
  have 3: "tokenize env_fail custom None [] = (Inl not_iterable, [])"
    using tokenize_ignores_exit_status [where env = env_fail and d = custom and p = None and tr = "[]",
        THEN conjunct2, THEN conjunct2] custom_jsonl_input
    by blast
  from 1 2 3 show ?thesis
    by (simp add: enron_tokenize_cmd)
qed

section \<open>The retained dataset name is never read\<close>

lemma download_loop_dataset_name:
  "download_loop env (d\<lparr>dataset_name := v\<rparr>) us tr = download_loop env d us tr"
  by (induction us arbitrary: tr) (simp_all add: wget_cmd_def base_dir_def Let_def del: join.simps)

lemma zip_loop_dataset_name:
  "zip_loop (d\<lparr>dataset_name := v\<rparr>) fs tr = zip_loop d fs tr"
  by (induction fs arbitrary: tr) (simp_all add: base_dir_def Let_def del: join.simps)

lemma ops_dataset_name:
  "exists env (d\<lparr>dataset_name := v\<rparr>) tr = exists env d tr"
  "download env (d\<lparr>dataset_name := v\<rparr>) tr = download env d tr"
  "tokenize env (d\<lparr>dataset_name := v\<rparr>) p tr = tokenize env d p tr"
  "customdataset_from_text env (d\<lparr>dataset_name := v\<rparr>) tr = customdataset_from_text env d tr"
     apply (simp add: exists_def base_dir_def)
    apply (simp add: download_def download_loop_dataset_name base_dir_def Let_def del: join.simps
      split: option.splits)
   apply (simp add: tokenize_def jsonl_input_def tokenize_cmd_def base_dir_def ftfy_def Let_def
      del: join.simps split: option.splits sum.splits)
  apply (simp add: customdataset_from_text_def zip_loop_dataset_name base_dir_def Let_def
      del: join.simps split: option.splits)
  done

lemma prepare_dataset_name:
  "prepare env (d\<lparr>dataset_name := v\<rparr>) tr = prepare env d tr"
  by (simp add: prepare_def ops_dataset_name base_dir_def del: join.simps
      split: prod.splits sum.splits)

lemma init_dataset_name:
  "init env c tt mf vf dd fr nw n1 = map_sum id (\<lambda>d. d\<lparr>dataset_name := n1\<rparr>) (init env c tt mf vf dd fr nw n2)"
  by (simp add: init_def Let_def split: option.splits)

text \<open>
  Claim C10. The field \<^verbatim>\<open>dataset_name\<close> has no effect: two constructions that
  differ only in the \<^verbatim>\<open>dataset_name\<close> argument fail alike or build downloaders on
  which \<^verbatim>\<open>exists\<close>, \<^verbatim>\<open>download\<close>, \<^verbatim>\<open>tokenize\<close>,
  \<^verbatim>\<open>customdataset_from_text\<close> and \<^verbatim>\<open>prepare\<close> give the same results and the
  same events, in every world and from every history.
\<close>

theorem dataset_name_has_no_effect:
  "map_sum id (\<lambda>d. (exists env d tr, download env d tr, tokenize env d p tr,
                     customdataset_from_text env d tr, prepare env d tr))
     (init env c tt mf vf dd fr nw n1)
   = map_sum id (\<lambda>d. (exists env d tr, download env d tr, tokenize env d p tr,
                     customdataset_from_text env d tr, prepare env d tr))
     (init env c tt mf vf dd fr nw n2)"
proof (cases "init env c tt mf vf dd fr nw n2")
  case (Inl e)
  then show ?thesis
    using init_dataset_name [of env c tt mf vf dd fr nw n1 n2] by simp
next
  case (Inr d)
  then have "init env c tt mf vf dd fr nw n1 = Inr (d\<lparr>dataset_name := n1\<rparr>)"
    using init_dataset_name [of env c tt mf vf dd fr nw n1 n2] by simp
  with Inr show ?thesis
    by (simp add: ops_dataset_name prepare_dataset_name)
qed

theorem dataset_name_has_no_effect_witness:
  "map_sum id (\<lambda>d. (exists env_fresh d [], download env_fresh d [], tokenize env_fresh d None [],
                     customdataset_from_text env_fresh d [], prepare env_fresh d []))
     (init env_fresh CustomDataset None None None (Some ''./data'') None (Some 1) (Some ''customdataset/run1''))
   = map_sum id (\<lambda>d. (exists env_fresh d [], download env_fresh d [], tokenize env_fresh d None [],
                     customdataset_from_text env_fresh d [], prepare env_fresh d []))
     (init env_fresh CustomDataset None None None (Some ''./data'') None (Some 1) None)"
  by (rule dataset_name_has_no_effect)

section \<open>Defaults of the vocabulary file\<close>

text \<open>
  Claim C6. When \<^verbatim>\<open>__init__\<close> is given no vocabulary file: with the byte-pair
  tokenizer (named, or by default) the vocabulary file is the data directory followed by
  \<^verbatim>\<open>/gpt2-vocab.json\<close>; with the wrapped pretrained tokenizer it is the name
  \<^verbatim>\<open>gpt2\<close>; with the character-level tokenizer there is none and the construction
  succeeds; with any other tokenizer type the construction fails on its assertion, and it
  succeeds as soon as a vocabulary file is given.
\<close>

theorem init_vocab_defaults:
  "((tt = None \<or> tt = Some ''GPT2BPETokenizer'') \<longrightarrow>
      (\<exists>d. init env c tt mf None dd fr nw dn = Inr d
           \<and> data_dir d = (case dd of None \<Rightarrow> environ_get env ''DATA_DIR'' ''./data'' | Some x \<Rightarrow> x)
           \<and> vocab_file d = Some (data_dir d @ ''/gpt2-vocab.json'')))
   \<and> (tt = Some ''HFGPT2Tokenizer'' \<longrightarrow>
      (\<exists>d. init env c tt mf None dd fr nw dn = Inr d \<and> vocab_file d = Some ''gpt2''))
   \<and> (tt = Some ''CharLevelTokenizer'' \<longrightarrow>
      (\<exists>d. init env c tt mf None dd fr nw dn = Inr d \<and> vocab_file d = None))
   \<and> (tt = Some t \<and> t \<noteq> ''GPT2BPETokenizer'' \<and> t \<noteq> ''HFGPT2Tokenizer'' \<and> t \<noteq> ''CharLevelTokenizer'' \<longrightarrow>
      init env c tt mf None dd fr nw dn = Inl (AssertionError ''No vocab file provided'')
      \<and> (\<exists>d. init env c tt mf (Some v) dd fr nw dn = Inr d \<and> vocab_file d = Some v))"
  by (auto simp add: init_def Let_def)

theorem init_vocab_defaults_witness:
  "(\<exists>d. init env_fresh Enron None None None None None None None = Inr d
        \<and> data_dir d = ''./data'' \<and> vocab_file d = Some ''./data/gpt2-vocab.json'')
   \<and> (\<exists>d. init env_fresh Enron (Some ''HFGPT2Tokenizer'') None None None None None None = Inr d
        \<and> vocab_file d = Some ''gpt2'')
   \<and> (\<exists>d. init env_fresh Enron (Some ''CharLevelTokenizer'') None None None None None None = Inr d
        \<and> vocab_file d = None)
   \<and> init env_fresh Enron (Some ''SPMTokenizer'') None None None None None None
        = Inl (AssertionError ''No vocab file provided'')
   \<and> (\<exists>d. init env_fresh Enron (Some ''SPMTokenizer'') None (Some ''spm.model'') None None None None = Inr d
        \<and> vocab_file d = Some ''spm.model'')"
proof -
  have 1: "\<exists>d. init env_fresh Enron None None None None None None None = Inr d
        \<and> data_dir d = ''./data'' \<and> vocab_file d = Some ''./data/gpt2-vocab.json''"
    using init_vocab_defaults [where tt = None and env = env_fresh and c = Enron and mf = None
        and dd = None and fr = None and nw = None and dn = None, THEN conjunct1]
    by (auto simp add: environ_get_def env_fresh_def)
  have 2: "\<exists>d. init env_fresh Enron (Some ''HFGPT2Tokenizer'') None None None None None None = Inr d
        \<and> vocab_file d = Some ''gpt2''"
    using init_vocab_defaults [where tt = "Some ''HFGPT2Tokenizer''" and env = env_fresh and c = Enron
        and mf = None and dd = None and fr = None and nw = None and dn = None,
        THEN conjunct2, THEN conjunct1]
    by simp
  have 3: "\<exists>d. init env_fresh Enron (Some ''CharLevelTokenizer'') None None None None None None = Inr d
        \<and> vocab_file d = None"
    using init_vocab_defaults [where tt = "Some ''CharLevelTokenizer''" and env = env_fresh and c = Enron
        and mf = None and dd = None and fr = None and nw = None and dn = None,
        THEN conjunct2, THEN conjunct2, THEN conjunct1]
    by simp
  have 4: "init env_fresh Enron (Some ''SPMTokenizer'') None None None None None None
        = Inl (AssertionError ''No vocab file provided'')
      \<and> (\<exists>d. init env_fresh Enron (Some ''SPMTokenizer'') None (Some ''spm.model'') None None None None = Inr d
        \<and> vocab_file d = Some ''spm.model'')"
    using init_vocab_defaults [where tt = "Some ''SPMTokenizer''" and t = "''SPMTokenizer''"
        and v = "''spm.model''" and env = env_fresh and c = Enron
        and mf = None and dd = None and fr = None and nw = None and dn = None,
        THEN conjunct2, THEN conjunct2, THEN conjunct2]
    by simp
  from 1 2 3 4 show ?thesis by blast
qed

section \<open>Packaging of loose text files\<close>

lemma basename_append_sep:
  assumes "CHR ''/'' \<notin> set f"
  shows "basename (a @ ''/'' @ f) = f"
proof -
  have "takeWhile (\<lambda>c. c \<noteq> CHR ''/'') (rev f @ CHR ''/'' # rev a)
        = rev f @ takeWhile (\<lambda>c. c \<noteq> CHR ''/'') (CHR ''/'' # rev a)"
    using assms by (intro takeWhile_append2) auto
  then show ?thesis by (simp add: basename_def)
qed

lemma basename_no_sep:
  assumes "CHR ''/'' \<notin> set f"
  shows "basename f = f"
proof -
  have "takeWhile (\<lambda>c. c \<noteq> CHR ''/'') (rev f) = rev f"
    using assms by (auto simp add: takeWhile_eq_all_conv)
  then show ?thesis unfolding basename_def by (simp only: rev_rev_ident)
qed

lemma endswith_sep:
  "endswith a ''/'' \<Longrightarrow> \<exists>b. a = b @ ''/''"
  by (cases a rule: rev_cases) (auto simp add: endswith_def)

lemma basename_join:
  assumes "CHR ''/'' \<notin> set f"
  shows "basename (join a [f]) = f"
proof -
  have ns: "\<not> startswith f ''/''"
    using assms by (cases f) (auto simp add: startswith_def)
  show ?thesis
  proof (cases "a = [] \<or> endswith a ''/''")
    case True
    then show ?thesis
    proof
      assume "a = []"
      then show ?thesis using ns assms by (simp add: basename_no_sep)
    next
      assume e: "endswith a ''/''"
      then obtain b where "a = b @ ''/''" using endswith_sep by blast
      then show ?thesis using ns e basename_append_sep [OF assms, of b] by simp
    qed
  next
    case False
    then show ?thesis using ns basename_append_sep [OF assms, of a] by simp
  qed
qed

lemma zip_loop_events:
  "(\<forall>f\<in>set fs. CHR ''/'' \<notin> set f) \<Longrightarrow>
   zip_loop d fs tr = tr @ map (\<lambda>f. ZipWrite zip_file_path (join (data_dir d) [f]) f) fs"
  by (induction fs arbitrary: tr) (simp_all add: basename_join base_dir_def Let_def del: join.simps)

text \<open>
  The three outcomes of \<^verbatim>\<open>customdataset_from_text\<close>. The dataset directory is
  created and the data directory itself is listed. The qualifying names are those that
  end in \<^verbatim>\<open>.txt\<close> and differ from \<^verbatim>\<open>gpt2-merges.txt\<close>. If there is none, the
  assertion fails and no archive is opened. If opening the archive at the fixed path
  raises, that exception is the outcome and nothing is archived. Otherwise exactly the
  qualifying names are written, each from the data directory and under its own name, in
  the order of the listing, and the archive is closed.
\<close>

lemma customdataset_from_text_cases:
  "(filter (\<lambda>f. endswith f ''.txt'' \<and> f \<noteq> ''gpt2-merges.txt'')
      (listdir env (tr @ [MakeDirs (join (data_dir d) [name d])]) (data_dir d)) = [] \<longrightarrow>
    customdataset_from_text env d tr =
      (Inl (AssertionError (''No textfile found at '' @ data_dir d @ ''.'')),
       tr @ [MakeDirs (join (data_dir d) [name d])]))
   \<and> (\<forall>e. filter (\<lambda>f. endswith f ''.txt'' \<and> f \<noteq> ''gpt2-merges.txt'')
          (listdir env (tr @ [MakeDirs (join (data_dir d) [name d])]) (data_dir d)) \<noteq> [] \<and>
        zipfile_open env (tr @ [MakeDirs (join (data_dir d) [name d])]) zip_file_path = Some e \<longrightarrow>
    customdataset_from_text env d tr = (Inl e, tr @ [MakeDirs (join (data_dir d) [name d])]))
   \<and> (filter (\<lambda>f. endswith f ''.txt'' \<and> f \<noteq> ''gpt2-merges.txt'')
        (listdir env (tr @ [MakeDirs (join (data_dir d) [name d])]) (data_dir d)) \<noteq> [] \<and>
      zipfile_open env (tr @ [MakeDirs (join (data_dir d) [name d])]) zip_file_path = None \<and>
      (\<forall>f\<in>set (listdir env (tr @ [MakeDirs (join (data_dir d) [name d])]) (data_dir d)). CHR ''/'' \<notin> set f) \<longrightarrow>
    customdataset_from_text env d tr =
      (Inr (),
       tr @ [MakeDirs (join (data_dir d) [name d]), ZipOpen zip_file_path]
          @ map (\<lambda>f. ZipWrite zip_file_path (join (data_dir d) [f]) f)
              (filter (\<lambda>f. endswith f ''.txt'' \<and> f \<noteq> ''gpt2-merges.txt'')
                 (listdir env (tr @ [MakeDirs (join (data_dir d) [name d])]) (data_dir d)))
          @ [ZipClose zip_file_path]))"
proof (intro conjI impI allI)
  assume "filter (\<lambda>f. endswith f ''.txt'' \<and> f \<noteq> ''gpt2-merges.txt'')
      (listdir env (tr @ [MakeDirs (join (data_dir d) [name d])]) (data_dir d)) = []"
  then show "customdataset_from_text env d tr =
      (Inl (AssertionError (''No textfile found at '' @ data_dir d @ ''.'')),
       tr @ [MakeDirs (join (data_dir d) [name d])])"
    unfolding customdataset_from_text_def is_txt_file_def base_dir_def Let_def
    by (simp del: join.simps)
next
  fix e
  assume "filter (\<lambda>f. endswith f ''.txt'' \<and> f \<noteq> ''gpt2-merges.txt'')
          (listdir env (tr @ [MakeDirs (join (data_dir d) [name d])]) (data_dir d)) \<noteq> [] \<and>
        zipfile_open env (tr @ [MakeDirs (join (data_dir d) [name d])]) zip_file_path = Some e"
  then show "customdataset_from_text env d tr = (Inl e, tr @ [MakeDirs (join (data_dir d) [name d])])"
    unfolding customdataset_from_text_def is_txt_file_def base_dir_def Let_def
    by (simp del: join.simps)
next
  let ?ls = "listdir env (tr @ [MakeDirs (join (data_dir d) [name d])]) (data_dir d)"
  let ?txt = "filter (\<lambda>f. endswith f ''.txt'' \<and> f \<noteq> ''gpt2-merges.txt'') ?ls"
  assume h: "?txt \<noteq> [] \<and>
      zipfile_open env (tr @ [MakeDirs (join (data_dir d) [name d])]) zip_file_path = None \<and>
      (\<forall>f\<in>set ?ls. CHR ''/'' \<notin> set f)"
  then have "\<forall>f\<in>set ?txt. CHR ''/'' \<notin> set f" by simp
  from zip_loop_events [OF this]
  have z: "\<And>t. zip_loop d ?txt t = t @ map (\<lambda>f. ZipWrite zip_file_path (join (data_dir d) [f]) f) ?txt" .
  from h have ne: "?txt \<noteq> []"
    and op: "zipfile_open env (tr @ [MakeDirs (join (data_dir d) [name d])]) zip_file_path = None"
    by blast+
  show "customdataset_from_text env d tr =
      (Inr (),
       tr @ [MakeDirs (join (data_dir d) [name d]), ZipOpen zip_file_path]
          @ map (\<lambda>f. ZipWrite zip_file_path (join (data_dir d) [f]) f) ?txt
          @ [ZipClose zip_file_path])"
    unfolding customdataset_from_text_def is_txt_file_def base_dir_def Let_def
    using ne op by (simp add: z del: join.simps)
qed

lemma custom_dir: "join (data_dir custom) [name custom] = ''./data/customdataset''"
  by (simp add: custom_def CustomDataset_def startswith_def endswith_def)

lemma fresh_listing:
  "filter (\<lambda>f. endswith f ''.txt'' \<and> f \<noteq> ''gpt2-merges.txt'') (listdir env_fresh t p) = [''a.txt'', ''b.txt'']"
  by (simp add: env_fresh_def endswith_def)

lemma no_archive_dir_listing:
  "filter (\<lambda>f. endswith f ''.txt'' \<and> f \<noteq> ''gpt2-merges.txt'') (listdir env_no_archive_dir t p)
     = [''a.txt'', ''b.txt'']"
  by (simp add: env_no_archive_dir_def env_fresh_def endswith_def)

lemma no_text_listing:
  "filter (\<lambda>f. endswith f ''.txt'' \<and> f \<noteq> ''gpt2-merges.txt'') (listdir env_no_text t p) = []"
  by (simp add: env_no_text_def endswith_def)

text \<open>
  Claim C5, at concrete inputs. The storage root \<^verbatim>\<open>./data\<close> lists
  \<^verbatim>\<open>a.txt\<close>, \<^verbatim>\<open>b.txt\<close>, \<^verbatim>\<open>gpt2-merges.txt\<close>, a note and the dataset directory.
  On the machine without the directory \<^verbatim>\<open>/content/gpt-neox/data\<close>, packaging creates
  the dataset directory and then raises \<^verbatim>\<open>FileNotFoundError\<close> when it opens the
  archive at its fixed path: nothing is archived. On the machine that has that directory,
  exactly \<^verbatim>\<open>a.txt\<close> and \<^verbatim>\<open>b.txt\<close> are archived under their own names. Where only
  the merge table and a note are listed, the assertion fails before any archive is opened.
\<close>

theorem packaging_needs_fixed_archive_directory:
  "customdataset_from_text env_no_archive_dir custom [] =
     (Inl (FileNotFoundError
            (''[Errno 2] No such file or directory: '' @ [CHR 0x27]
             @ ''/content/gpt-neox/data/text_file.zip'' @ [CHR 0x27])),
      [MakeDirs ''./data/customdataset''])
   \<and> customdataset_from_text env_fresh custom [] =
     (Inr (),
      [MakeDirs ''./data/customdataset'',
       ZipOpen ''/content/gpt-neox/data/text_file.zip'',
       ZipWrite ''/content/gpt-neox/data/text_file.zip'' ''./data/a.txt'' ''a.txt'',
       ZipWrite ''/content/gpt-neox/data/text_file.zip'' ''./data/b.txt'' ''b.txt'',
       ZipClose ''/content/gpt-neox/data/text_file.zip''])
   \<and> customdataset_from_text env_no_text custom [] =
     (Inl (AssertionError ''No textfile found at ./data.''), [MakeDirs ''./data/customdataset''])"
proof -
  have a: "filter (\<lambda>f. endswith f ''.txt'' \<and> f \<noteq> ''gpt2-merges.txt'')
        (listdir env_fresh ([] @ [MakeDirs (join (data_dir custom) [name custom])]) (data_dir custom)) \<noteq> [] \<and>
      zipfile_open env_fresh ([] @ [MakeDirs (join (data_dir custom) [name custom])]) zip_file_path = None \<and>
      (\<forall>f\<in>set (listdir env_fresh ([] @ [MakeDirs (join (data_dir custom) [name custom])]) (data_dir custom)).
          CHR ''/'' \<notin> set f)"
    by (simp add: fresh_listing) (simp add: env_fresh_def)
  have 1: "customdataset_from_text env_fresh custom [] =
      (Inr (),
       [] @ [MakeDirs (join (data_dir custom) [name custom]), ZipOpen zip_file_path]
          @ map (\<lambda>f. ZipWrite zip_file_path (join (data_dir custom) [f]) f)
              (filter (\<lambda>f. endswith f ''.txt'' \<and> f \<noteq> ''gpt2-merges.txt'')
                 (listdir env_fresh ([] @ [MakeDirs (join (data_dir custom) [name custom])]) (data_dir custom)))
          @ [ZipClose zip_file_path])"
    using customdataset_from_text_cases [where env = env_fresh and d = custom and tr = "[]",
        THEN conjunct2, THEN conjunct2] a
    by blast
  have 2: "customdataset_from_text env_no_text custom [] =
      (Inl (AssertionError (''No textfile found at '' @ data_dir custom @ ''.'')),
       [] @ [MakeDirs (join (data_dir custom) [name custom])])"
    using customdataset_from_text_cases [where env = env_no_text and d = custom and tr = "[]",
        THEN conjunct1] no_text_listing
    by blast
  have b: "filter (\<lambda>f. endswith f ''.txt'' \<and> f \<noteq> ''gpt2-merges.txt'')
        (listdir env_no_archive_dir ([] @ [MakeDirs (join (data_dir custom) [name custom])]) (data_dir custom)) \<noteq> [] \<and>
      zipfile_open env_no_archive_dir ([] @ [MakeDirs (join (data_dir custom) [name custom])]) zip_file_path
        = Some (FileNotFoundError
            (''[Errno 2] No such file or directory: '' @ [CHR 0x27] @ zip_file_path @ [CHR 0x27]))"
    by (simp add: no_archive_dir_listing) (simp add: env_no_archive_dir_def)
  have 3: "customdataset_from_text env_no_archive_dir custom [] =
      (Inl (FileNotFoundError
            (''[Errno 2] No such file or directory: '' @ [CHR 0x27] @ zip_file_path @ [CHR 0x27])),
       [] @ [MakeDirs (join (data_dir custom) [name custom])])"
    using customdataset_from_text_cases [where env = env_no_archive_dir and d = custom and tr = "[]",
        THEN conjunct2, THEN conjunct1] b
    by blast
  show ?thesis
    unfolding 1 2 3 fresh_listing custom_dir
    by (simp add: zip_file_path_def custom_def startswith_def endswith_def)
qed

section \<open>The archive of a custom corpus is written elsewhere\<close>

text \<open>
  Claim C1, at a concrete input. On the fresh machine, \<^verbatim>\<open>prepare\<close> of the custom
  downloader with data directory \<^verbatim>\<open>./data\<close> writes the archive at the fixed path
  \<^verbatim>\<open>/content/gpt-neox/data/text_file.zip\<close> and then hands the transform the input
  \<^verbatim>\<open>./data/customdataset/customdataset.zip\<close>, which no event has written. On the
  machine without the directory \<^verbatim>\<open>/content/gpt-neox/data\<close> it raises when it opens
  the archive and the transform is not run; nothing is written at either path.
\<close>

theorem prepare_custom_archive_path:
  "prepare env_fresh custom [] =
     (Inr (),
      [MakeDirs ''./data/customdataset'',
       ZipOpen ''/content/gpt-neox/data/text_file.zip'',
       ZipWrite ''/content/gpt-neox/data/text_file.zip'' ''./data/a.txt'' ''a.txt'',
       ZipWrite ''/content/gpt-neox/data/text_file.zip'' ''./data/b.txt'' ''b.txt'',
       ZipClose ''/content/gpt-neox/data/text_file.zip'',
       System ''python tools/datasets/preprocess_data.py             --input ./data/customdataset/customdataset.zip             --output-prefix ./data/customdataset/customdataset             --vocab ./data/gpt2-vocab.json             --dataset-impl mmap             --tokenizer-type GPT2BPETokenizer             --merge-file ./data/gpt2-merges.txt             --append-eod             --workers 1 ''])
   \<and> prepare env_no_archive_dir custom [] =
     (Inl (FileNotFoundError
            (''[Errno 2] No such file or directory: '' @ [CHR 0x27]
             @ ''/content/gpt-neox/data/text_file.zip'' @ [CHR 0x27])),
      [MakeDirs ''./data/customdataset''])"
  by (simp add: prepare_def customdataset_from_text_def tokenize_def jsonl_input_def tokenize_cmd_def
      is_txt_file_def zip_file_path_def base_dir_def basename_def ftfy_def fmt_opt_def str_int_1
      env_no_archive_dir_def env_fresh_def custom_def CustomDataset_def startswith_def endswith_def)

section \<open>Dispatch\<close>

lemma lower_pass: "lower env (split0 ''pass'') = ''pass''"
  by (simp add: lower_def is_ascii_def split0_def lower_char_def)

lemma lookup_pass: "map_of DATA_DOWNLOADERS ''pass'' = Some Pass"
  by (simp add: DATA_DOWNLOADERS_def)

text \<open>
  Claim C3, as amended. When the part of the dataset name before the first separator is,
  in lower case, the sentinel key \<^verbatim>\<open>pass\<close>, \<^verbatim>\<open>prepare_dataset\<close> returns
  normally after exactly these events: it creates the storage root; then, when the
  tokenizer type is the byte-pair one or is not given, it fetches the vocabulary if that
  is not a file yet, and after that the merge table if that is not a file yet. No
  downloader is built: no dataset directory is created, no dataset source is fetched, and
  the transform is not run.
\<close>

theorem prepare_dataset_pass:
  assumes "lower env (split0 n) = ''pass''"
  shows "prepare_dataset env n tt dd vf mf fr nw tr =
     (let dir = (case dd of None \<Rightarrow> environ_get env ''DATA_DIR'' ''./data'' | Some x \<Rightarrow> x);
          bpe = (tt = None \<or> tt = Some ''GPT2BPETokenizer'');
          tr1 = tr @ [MakeDirs dir];
          tr2 = tr1 @ (if bpe \<and> \<not> isfile env tr1 (dir @ ''//gpt2-vocab.json'')
                       then [System (''wget '' @ GPT2_VOCAB_URL @ '' -O '' @ dir @ ''//gpt2-vocab.json'')]
                       else []);
          tr3 = tr2 @ (if bpe \<and> \<not> isfile env tr2 (dir @ ''/gpt2-merges.txt'')
                       then [System (''wget '' @ GPT2_MERGE_URL @ '' -O '' @ dir @ ''/gpt2-merges.txt'')]
                       else [])
      in (Inr (), tr3))"
  using assms
  by (simp add: prepare_dataset_def maybe_download_gpt2_tokenizer_data_def lookup_pass Let_def)

text \<open>
  The claim as stated has no directory created and no process run. On the fresh machine
  the call with the sentinel key creates the storage root and runs two fetches.
\<close>

theorem prepare_dataset_pass_counterexample:
  "prepare_dataset env_fresh ''pass'' None None None None None None [] =
     (Inr (),
      [MakeDirs ''./data'',
       System ''wget https://huggingface.co/datasets/RaviChandera/gpt2-vocab/raw/main/gpt2-vocab.json -O ./data//gpt2-vocab.json'',
       System ''wget https://huggingface.co/datasets/RaviChandera/gpt2-merges/raw/main/gpt2-merges.txt -O ./data/gpt2-merges.txt''])"
  by (simp add: prepare_dataset_def maybe_download_gpt2_tokenizer_data_def lookup_pass lower_pass
      environ_get_def env_fresh_def GPT2_VOCAB_URL_def GPT2_MERGE_URL_def)

theorem prepare_dataset_pass_witness:
  "prepare_dataset env_assets ''pass'' None None None None None None [] = (Inr (), [MakeDirs ''./data''])
   \<and> prepare_dataset env_fresh ''PASS/dry-run'' (Some ''CharLevelTokenizer'') (Some ''/tmp/d'') None None None None []
       = (Inr (), [MakeDirs ''/tmp/d''])
   \<and> prepare_dataset env_fresh ''pass'' (Some ''GPT2BPETokenizer'') (Some ''/tmp/d'') None None None None [] =
     (Inr (),
      [MakeDirs ''/tmp/d'',
       System ''wget https://huggingface.co/datasets/RaviChandera/gpt2-vocab/raw/main/gpt2-vocab.json -O /tmp/d//gpt2-vocab.json'',
       System ''wget https://huggingface.co/datasets/RaviChandera/gpt2-merges/raw/main/gpt2-merges.txt -O /tmp/d/gpt2-merges.txt''])"
proof -
  have k: "lower env_fresh (split0 ''PASS/dry-run'') = ''pass''"
    by (simp add: lower_def is_ascii_def split0_def lower_char_def)
  show ?thesis
    using prepare_dataset_pass [where env = env_assets and n = "''pass''" and tt = None and dd = None
          and vf = None and mf = None and fr = None and nw = None and tr = "[]", OF lower_pass]
      prepare_dataset_pass [where env = env_fresh and n = "''PASS/dry-run''"
          and tt = "Some ''CharLevelTokenizer''" and dd = "Some ''/tmp/d''"
          and vf = None and mf = None and fr = None and nw = None and tr = "[]", OF k]
      prepare_dataset_pass [where env = env_fresh and n = "''pass''"
          and tt = "Some ''GPT2BPETokenizer''" and dd = "Some ''/tmp/d''"
          and vf = None and mf = None and fr = None and nw = None and tr = "[]", OF lower_pass]
    by (simp add: environ_get_def env_assets_def env_fresh_def GPT2_VOCAB_URL_def GPT2_MERGE_URL_def)
qed

lemma keys_DATA_DOWNLOADERS:
  "map fst DATA_DOWNLOADERS =
     [''pass'', ''enron'', ''pile_subset'', ''pile'', ''github'', ''arxiv'', ''europarl'', ''freelaw'',
      ''nih'', ''pubmed'', ''books1'', ''books3'', ''hackernews'', ''openwebtext2'', ''stackexchange'',
      ''ubuntu_irc'', ''youtube_subtitles'', ''c4'', ''c4_openwebtext'', ''customdataset'']"
  by (simp add: DATA_DOWNLOADERS_def)

text \<open>
  Claim C4, as amended. When the part of the dataset name before the first separator is,
  in lower case, no key of the registry, \<^verbatim>\<open>prepare_dataset\<close> raises the error
  that quotes the name and lists the keys of the registry. Before it does, it has created
  the storage root and, for the byte-pair tokenizer or none given, fetched the vocabulary
  and the merge table that were not files yet. It does nothing else: no dataset directory
  is created and no dataset source is fetched.
\<close>

theorem prepare_dataset_unknown:
  assumes "map_of DATA_DOWNLOADERS (lower env (split0 n)) = None"
  shows "prepare_dataset env n tt dd vf mf fr nw tr =
     (let dir = (case dd of None \<Rightarrow> environ_get env ''DATA_DIR'' ''./data'' | Some x \<Rightarrow> x);
          bpe = (tt = None \<or> tt = Some ''GPT2BPETokenizer'');
          tr1 = tr @ [MakeDirs dir];
          tr2 = tr1 @ (if bpe \<and> \<not> isfile env tr1 (dir @ ''//gpt2-vocab.json'')
                       then [System (''wget '' @ GPT2_VOCAB_URL @ '' -O '' @ dir @ ''//gpt2-vocab.json'')]
                       else []);
          tr3 = tr2 @ (if bpe \<and> \<not> isfile env tr2 (dir @ ''/gpt2-merges.txt'')
                       then [System (''wget '' @ GPT2_MERGE_URL @ '' -O '' @ dir @ ''/gpt2-merges.txt'')]
                       else [])
      in (Inl (NotImplementedError
                (''Dataset '' @ [CHR 0x22] @ n @ [CHR 0x22] @ '' not recognized - please choose from ''
                 @ repr_list
                     [''pass'', ''enron'', ''pile_subset'', ''pile'', ''github'', ''arxiv'', ''europarl'',
                      ''freelaw'', ''nih'', ''pubmed'', ''books1'', ''books3'', ''hackernews'',
                      ''openwebtext2'', ''stackexchange'', ''ubuntu_irc'', ''youtube_subtitles'', ''c4'',
                      ''c4_openwebtext'', ''customdataset''])),
          tr3))"
  using assms
  by (simp add: prepare_dataset_def maybe_download_gpt2_tokenizer_data_def not_recognized_def
      keys_DATA_DOWNLOADERS Let_def)

lemma lookup_imagenet: "map_of DATA_DOWNLOADERS (lower env (split0 ''ImageNet'')) = None"
  by (simp add: DATA_DOWNLOADERS_def lower_def is_ascii_def split0_def lower_char_def)

text \<open>
  The claim as stated has no directory created and no network access before the failure.
  On the fresh machine the call with an unknown name creates the storage root and runs
  two fetches before it raises.
\<close>

theorem prepare_dataset_unknown_counterexample:
  "prepare_dataset env_fresh ''ImageNet'' None None None None None None [] =
     (Inl (not_recognized ''ImageNet''),
      [MakeDirs ''./data'',
       System ''wget https://huggingface.co/datasets/RaviChandera/gpt2-vocab/raw/main/gpt2-vocab.json -O ./data//gpt2-vocab.json'',
       System ''wget https://huggingface.co/datasets/RaviChandera/gpt2-merges/raw/main/gpt2-merges.txt -O ./data/gpt2-merges.txt''])"
  by (simp add: prepare_dataset_def maybe_download_gpt2_tokenizer_data_def lookup_imagenet
      environ_get_def env_fresh_def GPT2_VOCAB_URL_def GPT2_MERGE_URL_def)

theorem prepare_dataset_unknown_witness:
  "prepare_dataset env_assets ''ImageNet'' None None None None None None [] =
     (Inl (NotImplementedError
            (''Dataset '' @ [CHR 0x22] @ ''ImageNet'' @ [CHR 0x22] @ '' not recognized - please choose from ''
             @ ''['' @ [CHR 0x27] @ ''pass'' @ [CHR 0x27] @ '', '' @ [CHR 0x27] @ ''enron'' @ [CHR 0x27] @ '', ''
             @ [CHR 0x27] @ ''pile_subset'' @ [CHR 0x27] @ '', '' @ [CHR 0x27] @ ''pile'' @ [CHR 0x27] @ '', ''
             @ [CHR 0x27] @ ''github'' @ [CHR 0x27] @ '', '' @ [CHR 0x27] @ ''arxiv'' @ [CHR 0x27] @ '', ''
             @ [CHR 0x27] @ ''europarl'' @ [CHR 0x27] @ '', '' @ [CHR 0x27] @ ''freelaw'' @ [CHR 0x27] @ '', ''
             @ [CHR 0x27] @ ''nih'' @ [CHR 0x27] @ '', '' @ [CHR 0x27] @ ''pubmed'' @ [CHR 0x27] @ '', ''
             @ [CHR 0x27] @ ''books1'' @ [CHR 0x27] @ '', '' @ [CHR 0x27] @ ''books3'' @ [CHR 0x27] @ '', ''
             @ [CHR 0x27] @ ''hackernews'' @ [CHR 0x27] @ '', '' @ [CHR 0x27] @ ''openwebtext2'' @ [CHR 0x27] @ '', ''
             @ [CHR 0x27] @ ''stackexchange'' @ [CHR 0x27] @ '', '' @ [CHR 0x27] @ ''ubuntu_irc'' @ [CHR 0x27] @ '', ''
             @ [CHR 0x27] @ ''youtube_subtitles'' @ [CHR 0x27] @ '', '' @ [CHR 0x27] @ ''c4'' @ [CHR 0x27] @ '', ''
             @ [CHR 0x27] @ ''c4_openwebtext'' @ [CHR 0x27] @ '', '' @ [CHR 0x27] @ ''customdataset'' @ [CHR 0x27]
             @ '']'')),
      [MakeDirs ''./data''])"
  using prepare_dataset_unknown [where env = env_assets and n = "''ImageNet''" and tt = None and dd = None
      and vf = None and mf = None and fr = None and nw = None and tr = "[]", OF lookup_imagenet]
  by (simp add: environ_get_def env_assets_def env_fresh_def repr_list_def)

section \<open>The worker count of the transform\<close>

lemma endswith_append: "endswith (a @ b) b"
  by (simp add: endswith_def)

lemma tokenize_cmd_suffix:
  "endswith (tokenize_cmd d inp) (workers_suffix (num_workers d) (num_docs d))"
proof -
  have "\<exists>a. tokenize_cmd d inp = a @ workers_suffix (num_workers d) (num_docs d)"
    by (cases "num_docs d") (simp_all add: tokenize_cmd_def workers_suffix_def ftfy_def Let_def del: join.simps)
  then show ?thesis
    using endswith_append by fastforce
qed

lemma keeps_wget: "keeps_suffix sfx (System (''wget '' @ x))"
  by (simp add: keeps_suffix_def startswith_def)

lemma keeps_tokenize: "keeps_suffix (workers_suffix (num_workers d) (num_docs d)) (System (tokenize_cmd d inp))"
  by (simp add: keeps_suffix_def tokenize_cmd_suffix)

lemma download_loop_keeps:
  "\<exists>evs. snd (download_loop env d us tr) = tr @ evs \<and> list_all (keeps_suffix sfx) evs"
proof (induction us arbitrary: tr)
  case Nil
  then show ?case by simp
next
  case (Cons u us)
  obtain evs where e: "snd (download_loop env d us (tr @ [System (wget_cmd d u)])) = (tr @ [System (wget_cmd d u)]) @ evs"
      "list_all (keeps_suffix sfx) evs"
    using Cons.IH by blast
  have k: "keeps_suffix sfx (System (wget_cmd d u))"
    unfolding wget_cmd_def by (rule keeps_wget)
  show ?case
  proof (cases "system env tr (wget_cmd d u) = 0")
    case True
    then have "snd (download_loop env d (u # us) tr) = tr @ (System (wget_cmd d u) # evs)"
      using e(1) by (simp add: Let_def)
    moreover have "list_all (keeps_suffix sfx) (System (wget_cmd d u) # evs)"
      using k e(2) by simp
    ultimately show ?thesis by blast
  next
    case False
    then have "snd (download_loop env d (u # us) tr) = tr @ [System (wget_cmd d u)]"
      by (simp add: Let_def)
    moreover have "list_all (keeps_suffix sfx) [System (wget_cmd d u)]"
      using k by simp
    ultimately show ?thesis by blast
  qed
qed

lemma download_keeps:
  "\<exists>evs. snd (download env d tr) = tr @ evs \<and> list_all (keeps_suffix sfx) evs"
proof (cases "urls d")
  case None
  then have "snd (download env d tr) = tr @ [MakeDirs (join (base_dir d) [name d])]"
    by (simp add: download_def Let_def del: join.simps)
  moreover have "list_all (keeps_suffix sfx) [MakeDirs (join (base_dir d) [name d])]"
    by (simp add: keeps_suffix_def)
  ultimately show ?thesis by blast
next
  case (Some us)
  obtain evs where e: "snd (download_loop env d us (tr @ [MakeDirs (join (base_dir d) [name d])])) =
      (tr @ [MakeDirs (join (base_dir d) [name d])]) @ evs" "list_all (keeps_suffix sfx) evs"
    using download_loop_keeps by blast
  have "snd (download env d tr) = tr @ (MakeDirs (join (base_dir d) [name d]) # evs)"
    using Some e(1) by (simp add: download_def Let_def del: join.simps)
  moreover have "list_all (keeps_suffix sfx) (MakeDirs (join (base_dir d) [name d]) # evs)"
    using e(2) by (simp add: keeps_suffix_def)
  ultimately show ?thesis by blast
qed

lemma zip_loop_keeps:
  "\<exists>evs. zip_loop d fs tr = tr @ evs \<and> list_all (keeps_suffix sfx) evs"
proof (induction fs arbitrary: tr)
  case Nil
  then show ?case by simp
next
  case (Cons f fs)
  let ?e = "ZipWrite zip_file_path (join (base_dir d) [f]) (basename (join (base_dir d) [f]))"
  obtain evs where e: "zip_loop d fs (tr @ [?e]) = (tr @ [?e]) @ evs" "list_all (keeps_suffix sfx) evs"
    using Cons.IH by blast
  have "zip_loop d (f # fs) tr = tr @ (?e # evs)"
    using e(1) by (simp add: Let_def del: join.simps)
  moreover have "list_all (keeps_suffix sfx) (?e # evs)"
    using e(2) by (simp add: keeps_suffix_def)
  ultimately show ?case by blast
qed

lemma customdataset_from_text_keeps:
  "\<exists>evs. snd (customdataset_from_text env d tr) = tr @ evs \<and> list_all (keeps_suffix sfx) evs"
proof -
  let ?m = "MakeDirs (join (base_dir d) [name d])"
  let ?txt = "filter is_txt_file (listdir env (tr @ [?m]) (base_dir d))"
  obtain evs where e: "zip_loop d ?txt (tr @ [?m, ZipOpen zip_file_path]) = (tr @ [?m, ZipOpen zip_file_path]) @ evs"
      "list_all (keeps_suffix sfx) evs"
    using zip_loop_keeps by blast
  have m: "list_all (keeps_suffix sfx) [?m]"
    by (simp add: keeps_suffix_def)
  show ?thesis
  proof (cases "?txt = [] \<or> zipfile_open env (tr @ [?m]) zip_file_path \<noteq> None")
    case True
    then have "snd (customdataset_from_text env d tr) = tr @ [?m]"
      by (auto simp add: customdataset_from_text_def Let_def simp del: join.simps)
    then show ?thesis using m by blast
  next
    case False
    then have "snd (customdataset_from_text env d tr) = tr @ ([?m, ZipOpen zip_file_path] @ evs @ [ZipClose zip_file_path])"
      using e(1) by (auto simp add: customdataset_from_text_def Let_def simp del: join.simps)
    moreover have "list_all (keeps_suffix sfx) ([?m, ZipOpen zip_file_path] @ evs @ [ZipClose zip_file_path])"
      using e(2) by (simp add: keeps_suffix_def)
    ultimately show ?thesis by blast
  qed
qed

lemma tokenize_keeps:
  "\<exists>evs. snd (tokenize env d p tr) = tr @ evs
         \<and> list_all (keeps_suffix (workers_suffix (num_workers d) (num_docs d))) evs"
proof (cases "jsonl_input d p")
  case (Inl e)
  then have "snd (tokenize env d p tr) = tr @ []"
    by (simp add: tokenize_def)
  then show ?thesis by force
next
  case (Inr inp)
  then have "snd (tokenize env d p tr) = tr @ [System (tokenize_cmd d inp)]"
    by (simp add: tokenize_def Let_def)
  moreover have "list_all (keeps_suffix (workers_suffix (num_workers d) (num_docs d))) [System (tokenize_cmd d inp)]"
    by (simp add: keeps_tokenize)
  ultimately show ?thesis by blast
qed

lemma then_tokenize_keeps:
  assumes "\<exists>evs. snd r = tr @ evs \<and> list_all (keeps_suffix (workers_suffix (num_workers d) (num_docs d))) evs"
  shows "\<exists>evs. snd (case r of (Inl e, tr1) \<Rightarrow> (Inl e, tr1) | (Inr u, tr1) \<Rightarrow> tokenize env d p tr1) = tr @ evs
         \<and> list_all (keeps_suffix (workers_suffix (num_workers d) (num_docs d))) evs"
proof -
  obtain x tr1 where r: "r = (x, tr1)" by (cases r)
  obtain evs where e: "tr1 = tr @ evs" "list_all (keeps_suffix (workers_suffix (num_workers d) (num_docs d))) evs"
    using assms r by auto
  show ?thesis
  proof (cases x)
    case (Inl a)
    then show ?thesis using r e by auto
  next
    case (Inr b)
    obtain evs' where e': "snd (tokenize env d p tr1) = tr1 @ evs'"
        "list_all (keeps_suffix (workers_suffix (num_workers d) (num_docs d))) evs'"
      using tokenize_keeps by blast
    have "snd (case r of (Inl e, tr1) \<Rightarrow> (Inl e, tr1) | (Inr u, tr1) \<Rightarrow> tokenize env d p tr1) = tr @ (evs @ evs')"
      using r Inr e(1) e'(1) by simp
    moreover have "list_all (keeps_suffix (workers_suffix (num_workers d) (num_docs d))) (evs @ evs')"
      using e(2) e'(2) by simp
    ultimately show ?thesis by blast
  qed
qed

lemma prepare_keeps:
  "\<exists>evs. snd (prepare env d tr) = tr @ evs
         \<and> list_all (keeps_suffix (workers_suffix (num_workers d) (num_docs d))) evs"
proof -
  have n: "\<exists>evs. snd ((Inr (), tr) :: unit result) = tr @ evs
         \<and> list_all (keeps_suffix (workers_suffix (num_workers d) (num_docs d))) evs"
    by simp
  show ?thesis
  proof (cases "name d = ''customdataset''")
    case True
    then have "prepare env d tr =
        (case customdataset_from_text env d tr of
           (Inl e, tr1) \<Rightarrow> (Inl e, tr1)
         | (Inr u, tr1) \<Rightarrow>
             tokenize env d (Some (join (join (base_dir d) [name d]) [name d @ ''.zip''])) tr1)"
      by (simp add: prepare_def del: join.simps)
    then show ?thesis
      using then_tokenize_keeps [OF customdataset_from_text_keeps] by simp
  next
    case False
    show ?thesis
    proof (cases "force_redownload d \<or> \<not> exists env d tr")
      case True
      with False have "prepare env d tr =
          (case download env d tr of
             (Inl e, tr1) \<Rightarrow> (Inl e, tr1)
           | (Inr u, tr1) \<Rightarrow> tokenize env d None tr1)"
        by (auto simp add: prepare_def simp del: join.simps)
      then show ?thesis
        using then_tokenize_keeps [OF download_keeps] by simp
    next
      case no: False
      with False have "prepare env d tr =
          (case ((Inr (), tr) :: unit result) of
             (Inl e, tr1) \<Rightarrow> (Inl e, tr1)
           | (Inr u, tr1) \<Rightarrow> tokenize env d None tr1)"
        by (auto simp add: prepare_def simp del: join.simps)
      then show ?thesis
        using then_tokenize_keeps [OF n] by simp
    qed
  qed
qed

lemma maybe_download_keeps:
  "\<exists>evs. maybe_download_gpt2_tokenizer_data env tt dir tr = tr @ evs \<and> list_all (keeps_suffix sfx) evs"
proof -
  let ?v = "System (''wget '' @ GPT2_VOCAB_URL @ '' -O '' @ dir @ ''//gpt2-vocab.json'')"
  let ?m = "System (''wget '' @ GPT2_MERGE_URL @ '' -O '' @ dir @ ''/gpt2-merges.txt'')"
  let ?a = "if \<not> isfile env tr (dir @ ''//gpt2-vocab.json'') then [?v] else []"
  let ?b = "if \<not> isfile env (tr @ ?a) (dir @ ''/gpt2-merges.txt'') then [?m] else []"
  have k: "keeps_suffix sfx ?v" "keeps_suffix sfx ?m"
    by (rule keeps_wget)+
  show ?thesis
  proof (cases "tt = None \<or> tt = Some ''GPT2BPETokenizer''")
    case True
    then have "maybe_download_gpt2_tokenizer_data env tt dir tr = tr @ (?a @ ?b)"
      by (auto simp add: maybe_download_gpt2_tokenizer_data_def Let_def)
    moreover have "list_all (keeps_suffix sfx) (?a @ ?b)"
      using k by simp
    ultimately show ?thesis by blast
  next
    case False
    then have "maybe_download_gpt2_tokenizer_data env tt dir tr = tr @ []"
      by (auto simp add: maybe_download_gpt2_tokenizer_data_def)
    then show ?thesis by force
  qed
qed

lemma init_fields:
  "init env c tt mf vf dd fr (Some w) ds = Inr d \<Longrightarrow> num_workers d = w \<and> num_docs d = cls_num_docs c"
  by (auto simp add: init_def Let_def split: option.splits if_splits)

lemma prepare_dataset_keeps:
  assumes "map_of DATA_DOWNLOADERS (lower env (split0 n)) = Some (Class c)"
  shows "\<exists>evs. snd (prepare_dataset env n tt dd vf mf fr nw tr) = tr @ evs
           \<and> list_all (keeps_suffix (workers_suffix 1 (cls_num_docs c))) evs"
proof -
  let ?sfx = "workers_suffix 1 (cls_num_docs c)"
  let ?dir = "case dd of None \<Rightarrow> environ_get env ''DATA_DIR'' ''./data'' | Some x \<Rightarrow> x"
  let ?ds = "if split0 n \<in> set [''customdataset''] then Some n else None"
  let ?tr1 = "tr @ [MakeDirs ?dir]"
  obtain evs where e: "maybe_download_gpt2_tokenizer_data env tt ?dir ?tr1 = ?tr1 @ evs"
      "list_all (keeps_suffix ?sfx) evs"
    using maybe_download_keeps by blast
  let ?tr2 = "?tr1 @ evs"
  have pre: "list_all (keeps_suffix ?sfx) (MakeDirs ?dir # evs)"
    using e(2) by (simp add: keeps_suffix_def)
  show ?thesis
  proof (cases "init env c tt mf vf (Some ?dir) fr (Some 1) ?ds")
    case (Inl err)
    then have "snd (prepare_dataset env n tt dd vf mf fr nw tr) = tr @ (MakeDirs ?dir # evs)"
      using assms e(1) by (simp add: prepare_dataset_def Let_def)
    then show ?thesis using pre by blast
  next
    case (Inr d)
    then have f: "num_workers d = 1" "num_docs d = cls_num_docs c"
      using init_fields by blast+
    obtain evs' where e': "snd (prepare env d ?tr2) = ?tr2 @ evs'" "list_all (keeps_suffix ?sfx) evs'"
      using prepare_keeps [of env d ?tr2] f by auto
    have "snd (prepare_dataset env n tt dd vf mf fr nw tr) = tr @ ((MakeDirs ?dir # evs) @ evs')"
      using assms e(1) Inr e'(1) by (simp add: prepare_dataset_def Let_def)
    moreover have "list_all (keeps_suffix ?sfx) ((MakeDirs ?dir # evs) @ evs')"
      using pre e'(2) by simp
    ultimately show ?thesis by blast
  qed
qed

text \<open>
  Claim C9. For a dataset name that the registry maps to a downloader class, the outcome
  of \<^verbatim>\<open>prepare_dataset\<close> is the same for every worker count the caller passes,
  and every run of the preprocessing script among the events of the call has a command
  line that ends with \<^verbatim>\<open>--workers 1\<close>, followed only by the document count of the
  class when it declares one.
\<close>

theorem dispatch_forces_one_worker:
  assumes "map_of DATA_DOWNLOADERS (lower env (split0 n)) = Some (Class c)"
  shows "prepare_dataset env n tt dd vf mf fr nw tr = prepare_dataset env n tt dd vf mf fr nw' tr
     \<and> (\<forall>cmd. System cmd \<in> set (drop (length tr) (snd (prepare_dataset env n tt dd vf mf fr nw tr)))
              \<and> startswith cmd ''python tools/datasets/preprocess_data.py ''
          \<longrightarrow> endswith cmd
                (''--workers 1 ''
                 @ (case cls_num_docs c of None \<Rightarrow> [] | Some k \<Rightarrow> ''--num-docs '' @ str_int k @ '' '')))"
proof (intro conjI allI impI)
  show "prepare_dataset env n tt dd vf mf fr nw tr = prepare_dataset env n tt dd vf mf fr nw' tr"
    by (simp add: prepare_dataset_def)
next
  fix cmd
  assume h: "System cmd \<in> set (drop (length tr) (snd (prepare_dataset env n tt dd vf mf fr nw tr)))
              \<and> startswith cmd ''python tools/datasets/preprocess_data.py ''"
  obtain evs where e: "snd (prepare_dataset env n tt dd vf mf fr nw tr) = tr @ evs"
      "list_all (keeps_suffix (workers_suffix 1 (cls_num_docs c))) evs"
    using prepare_dataset_keeps [OF assms] by blast
  from h e(1) have "System cmd \<in> set evs" by simp
  with e(2) have "keeps_suffix (workers_suffix 1 (cls_num_docs c)) (System cmd)"
    by (simp add: list_all_iff)
  with h have "endswith cmd (workers_suffix 1 (cls_num_docs c))"
    by (simp add: keeps_suffix_def)
  then show "endswith cmd
                (''--workers 1 ''
                 @ (case cls_num_docs c of None \<Rightarrow> [] | Some k \<Rightarrow> ''--num-docs '' @ str_int k @ '' ''))"
    by (simp add: workers_suffix_def str_int_1)
qed

lemma lookup_enron: "map_of DATA_DOWNLOADERS (lower env (split0 ''Enron/v1'')) = Some (Class Enron)"
  by (simp add: DATA_DOWNLOADERS_def lower_def is_ascii_def split0_def lower_char_def)

lemma lookup_enron_key: "map_of DATA_DOWNLOADERS (lower env ''Enron'') = Some (Class Enron)"
  by (simp add: DATA_DOWNLOADERS_def lower_def is_ascii_def lower_char_def)

lemma enron_dispatch:
  "prepare_dataset env_assets ''Enron/v1'' None None None None None (Some 8) [] =
     (Inr (),
      [MakeDirs ''./data'',
       MakeDirs ''./data/enron'',
       System ''wget http://eaidata.bmk.sh/data/enron_emails.jsonl.zst -O ./data/enron/enron_emails.jsonl.zst'',
       System ''python tools/datasets/preprocess_data.py             --input ./data/enron/enron_emails.jsonl.zst             --output-prefix ./data/enron/enron             --vocab ./data/gpt2-vocab.json             --dataset-impl mmap             --tokenizer-type GPT2BPETokenizer             --merge-file ./data/gpt2-merges.txt             --append-eod             --workers 1 --num-docs 517401 ''])"
  by (simp add: prepare_dataset_def maybe_download_gpt2_tokenizer_data_def lookup_enron_key init_def
      Let_def prepare_def exists_def download_def tokenize_def jsonl_input_def tokenize_cmd_def wget_cmd_def
      base_dir_def basename_def ftfy_def fmt_opt_def str_int_1 str_int_517401 split0_def
      environ_get_def env_assets_def env_fresh_def Enron_def startswith_def endswith_def)

text \<open>
  A name written with the Kelvin sign is lowered to its registry key, as Python does, and
  the dataset is prepared.
\<close>

lemma lookup_kelvin:
  "map_of DATA_DOWNLOADERS (lower env (split0 kelvin_name)) = Some (Class HackerNews)"
  by (simp add: DATA_DOWNLOADERS_def lower_def is_ascii_def split0_def lower_char_def kelvin_name_def)

lemma str_int_373000: "str_int 373000 = ''373000''"
  by (simp add: str_int_def str_nat.simps digit_def)

lemma kelvin_dispatch:
  "prepare_dataset env_assets kelvin_name None None None None None (Some 8) [] =
     (Inr (),
      [MakeDirs ''./data'',
       MakeDirs ''./data/hackernews'',
       System ''wget https://the-eye.eu/public/AI/pile_preliminary_components/hn.tar.gz -O ./data/hackernews/hn.tar.gz'',
       System ''python tools/datasets/preprocess_data.py             --input ./data/hackernews/hn.tar.gz             --output-prefix ./data/hackernews/hackernews             --vocab ./data/gpt2-vocab.json             --dataset-impl mmap             --tokenizer-type GPT2BPETokenizer             --merge-file ./data/gpt2-merges.txt             --append-eod             --workers 1 --num-docs 373000 ''])"
proof -
  have s: "split0 kelvin_name \<noteq> ''customdataset''"
    by (simp add: split0_def kelvin_name_def)
  show ?thesis
    using s
    by (simp add: prepare_dataset_def maybe_download_gpt2_tokenizer_data_def lookup_kelvin init_def
      Let_def prepare_def exists_def download_def tokenize_def jsonl_input_def tokenize_cmd_def wget_cmd_def
      base_dir_def basename_def ftfy_def fmt_opt_def str_int_1 str_int_373000
      environ_get_def env_assets_def env_fresh_def HackerNews_def startswith_def endswith_def)
qed

theorem dispatch_forces_one_worker_witness:
  "prepare_dataset env_assets ''Enron/v1'' None None None None None (Some 8) [] =
     prepare_dataset env_assets ''Enron/v1'' None None None None None (Some 32) []
   \<and> endswith ''python tools/datasets/preprocess_data.py             --input ./data/enron/enron_emails.jsonl.zst             --output-prefix ./data/enron/enron             --vocab ./data/gpt2-vocab.json             --dataset-impl mmap             --tokenizer-type GPT2BPETokenizer             --merge-file ./data/gpt2-merges.txt             --append-eod             --workers 1 --num-docs 517401 ''
        ''--workers 1 --num-docs 517401 ''
   \<and> System ''python tools/datasets/preprocess_data.py             --input ./data/enron/enron_emails.jsonl.zst             --output-prefix ./data/enron/enron             --vocab ./data/gpt2-vocab.json             --dataset-impl mmap             --tokenizer-type GPT2BPETokenizer             --merge-file ./data/gpt2-merges.txt             --append-eod             --workers 1 --num-docs 517401 ''
        \<in> set (snd (prepare_dataset env_assets ''Enron/v1'' None None None None None (Some 8) []))
   \<and> prepare_dataset env_assets kelvin_name None None None None None (Some 8) [] =
     prepare_dataset env_assets kelvin_name None None None None None (Some 32) []
   \<and> endswith ''python tools/datasets/preprocess_data.py             --input ./data/hackernews/hn.tar.gz             --output-prefix ./data/hackernews/hackernews             --vocab ./data/gpt2-vocab.json             --dataset-impl mmap             --tokenizer-type GPT2BPETokenizer             --merge-file ./data/gpt2-merges.txt             --append-eod             --workers 1 --num-docs 373000 ''
        ''--workers 1 --num-docs 373000 ''
   \<and> System ''python tools/datasets/preprocess_data.py             --input ./data/hackernews/hn.tar.gz             --output-prefix ./data/hackernews/hackernews             --vocab ./data/gpt2-vocab.json             --dataset-impl mmap             --tokenizer-type GPT2BPETokenizer             --merge-file ./data/gpt2-merges.txt             --append-eod             --workers 1 --num-docs 373000 ''
        \<in> set (snd (prepare_dataset env_assets kelvin_name None None None None None (Some 8) []))"
proof -
  let ?cmd = "''python tools/datasets/preprocess_data.py             --input ./data/enron/enron_emails.jsonl.zst             --output-prefix ./data/enron/enron             --vocab ./data/gpt2-vocab.json             --dataset-impl mmap             --tokenizer-type GPT2BPETokenizer             --merge-file ./data/gpt2-merges.txt             --append-eod             --workers 1 --num-docs 517401 ''"
  note t = dispatch_forces_one_worker [where env = env_assets and n = "''Enron/v1''" and c = Enron
      and tt = None and dd = None and vf = None and mf = None and fr = None and nw = "Some 8"
      and tr = "[]" and nw' = "Some 32", OF lookup_enron]
  have m: "System ?cmd \<in> set (snd (prepare_dataset env_assets ''Enron/v1'' None None None None None (Some 8) []))"
    unfolding enron_dispatch by simp
  have s: "startswith ?cmd ''python tools/datasets/preprocess_data.py ''"
    by (simp add: startswith_def)
  have "endswith ?cmd (''--workers 1 '' @ (case cls_num_docs Enron of None \<Rightarrow> [] | Some k \<Rightarrow> ''--num-docs '' @ str_int k @ '' ''))"
    using t [THEN conjunct2, rule_format, of ?cmd] m s by simp
  then have "endswith ?cmd ''--workers 1 --num-docs 517401 ''"
    by (simp add: Enron_def str_int_517401)
  with t [THEN conjunct1] m
  have e: "prepare_dataset env_assets ''Enron/v1'' None None None None None (Some 8) [] =
       prepare_dataset env_assets ''Enron/v1'' None None None None None (Some 32) []
     \<and> endswith ?cmd ''--workers 1 --num-docs 517401 ''
     \<and> System ?cmd \<in> set (snd (prepare_dataset env_assets ''Enron/v1'' None None None None None (Some 8) []))"
    by blast
  let ?hn = "''python tools/datasets/preprocess_data.py             --input ./data/hackernews/hn.tar.gz             --output-prefix ./data/hackernews/hackernews             --vocab ./data/gpt2-vocab.json             --dataset-impl mmap             --tokenizer-type GPT2BPETokenizer             --merge-file ./data/gpt2-merges.txt             --append-eod             --workers 1 --num-docs 373000 ''"
  note u = dispatch_forces_one_worker [where env = env_assets and n = kelvin_name and c = HackerNews
      and tt = None and dd = None and vf = None and mf = None and fr = None and nw = "Some 8"
      and tr = "[]" and nw' = "Some 32", OF lookup_kelvin]
  have mk: "System ?hn \<in> set (snd (prepare_dataset env_assets kelvin_name None None None None None (Some 8) []))"
    unfolding kelvin_dispatch by simp
  have sk: "startswith ?hn ''python tools/datasets/preprocess_data.py ''"
    by (simp add: startswith_def)
  have "endswith ?hn (''--workers 1 '' @ (case cls_num_docs HackerNews of None \<Rightarrow> [] | Some k \<Rightarrow> ''--num-docs '' @ str_int k @ '' ''))"
    using u [THEN conjunct2, rule_format, of ?hn] mk sk by simp
  then have "endswith ?hn ''--workers 1 --num-docs 373000 ''"
    by (simp add: HackerNews_def str_int_373000)
  with u [THEN conjunct1] mk e show ?thesis by blast
qed

end
